theory Spec2Isabelle
  imports Main
begin

section \<open>The decorator registry of ngx-reactive-forms-generator\<close>

text \<open>
  The development embeds \<^verbatim>\<open>index.ts\<close>: the process-wide object \<^verbatim>\<open>METADATA\<close>, the six
  decorators that fill it and the two accessors that read it. Form groups and form controls
  are objects with identity, shared by reference between the registry and the groups that
  nest them, so they live in an explicit store and the registry holds addresses.
\<close>

subsection \<open>Values and arguments\<close>

type_synonym addr = nat

text \<open>A validator is a function; only its identity matters here.\<close>

type_synonym ValidatorFn = nat
type_synonym AsyncValidatorFn = nat

datatype jsval =
    JUndefined
  | JNull
  | JBool bool
  | JNum int
  | JStr string
  | JObj "(string \<times> jsval) list"

text \<open>\<^verbatim>\<open>F | F[]\<close>: one function or an array of them.\<close>

datatype 'f fns = One 'f | Many "'f list"

text \<open>\<^verbatim>\<open>FormControlOptions\<close>: the two members the control constructor reads for its rules.\<close>

record FormControlOptions =
  opt_validators :: "ValidatorFn fns option"
  opt_asyncValidators :: "AsyncValidatorFn fns option"

text \<open>\<^verbatim>\<open>ValidatorFn | ValidatorFn[] | FormControlOptions | null\<close>\<close>

datatype validatorsOrOptions =
    NoRules
  | Rules "ValidatorFn fns"
  | Options FormControlOptions

text \<open>\<^verbatim>\<open>type FormIdType = string | string[] | undefined\<close>\<close>

datatype FormIdType = NoFormId | FormId string | FormIds "string list"

text \<open>
  A decorated class, as far as the registry looks at it: \<^verbatim>\<open>type.name\<close>, the string the
  class coerces to when it is used as a property key of \<^verbatim>\<open>METADATA\<close> (the text of the
  class, which is never the name of a member of \<^verbatim>\<open>Object.prototype\<close>), and the own
  enumerable properties of \<^verbatim>\<open>new type()\<close> in enumeration order. Two classes with the
  same key share one entry of the registry.
\<close>

record ModelType =
  type_name :: string
  type_key :: string
  type_instance :: "(string \<times> jsval) list"

datatype error = TypeError

subsection \<open>The form library\<close>

text \<open>
  \<^verbatim>\<open>FormGroup\<close> and \<^verbatim>\<open>FormControl\<close> come from the form library, which is not part of the
  repository. The definitions of this subsection are modelled from the spec, at the level
  of its list of consumed capabilities: a control holds a value, its synchronous rules and
  its asynchronous rule; a group holds named children; children are added, removed and read
  by name. Child names are atomic keys. The library's bookkeeping of parents, status and
  events is not represented.
\<close>

datatype control_kind =
    Control jsval
  | Group "(string \<times> addr) list"

record AbstractControl =
  ac_kind :: control_kind
  ac_validators :: "ValidatorFn list"
  ac_asyncValidators :: "AsyncValidatorFn list"

fun makeValidatorsArray :: "'f fns option \<Rightarrow> 'f list" where
  "makeValidatorsArray None = []"
| "makeValidatorsArray (Some (One f)) = [f]"
| "makeValidatorsArray (Some (Many fs)) = fs"

text \<open>Modelled from the spec: \<^verbatim>\<open>addValidators\<close> and \<^verbatim>\<open>addAsyncValidators\<close> of the library
  add the given rules that the control does not have yet.\<close>

definition add_missing :: "'f list \<Rightarrow> 'f list \<Rightarrow> 'f list" where
  "add_missing current new = foldl (\<lambda>cur v. if v \<in> set cur then cur else cur @ [v]) current new"

definition ac_addValidators :: "ValidatorFn fns \<Rightarrow> AbstractControl \<Rightarrow> AbstractControl" where
  "ac_addValidators vs c =
     c\<lparr>ac_validators := add_missing (ac_validators c) (makeValidatorsArray (Some vs))\<rparr>"

definition ac_addAsyncValidators :: "AsyncValidatorFn fns \<Rightarrow> AbstractControl \<Rightarrow> AbstractControl" where
  "ac_addAsyncValidators vs c =
     c\<lparr>ac_asyncValidators := add_missing (ac_asyncValidators c) (makeValidatorsArray (Some vs))\<rparr>"

text \<open>Modelled from the spec: \<^verbatim>\<open>new FormGroup({})\<close>, a group without children or rules.\<close>

definition new_FormGroup :: AbstractControl where
  "new_FormGroup = \<lparr>ac_kind = Group [], ac_validators = [], ac_asyncValidators = []\<rparr>"

text \<open>Modelled from the spec: \<^verbatim>\<open>new FormControl(formState, validatorOrOpts, asyncValidator)\<close>
  constructs a control from a value, its synchronous rules and its asynchronous rule. The
  second argument gives the synchronous rules and the third the asynchronous rule, unless
  the second argument is an options object: the library then takes both kinds of rules
  from the options and does not look at the third argument.\<close>

definition new_FormControl ::
  "jsval \<Rightarrow> validatorsOrOptions \<Rightarrow> AsyncValidatorFn list \<Rightarrow> AbstractControl" where
  "new_FormControl formState validatorOrOpts asyncValidator =
     (case validatorOrOpts of
        NoRules \<Rightarrow>
          \<lparr>ac_kind = Control formState, ac_validators = [],
           ac_asyncValidators = asyncValidator\<rparr>
      | Rules vs \<Rightarrow>
          \<lparr>ac_kind = Control formState, ac_validators = makeValidatorsArray (Some vs),
           ac_asyncValidators = asyncValidator\<rparr>
      | Options opts \<Rightarrow>
          \<lparr>ac_kind = Control formState,
           ac_validators = makeValidatorsArray (opt_validators opts),
           ac_asyncValidators = makeValidatorsArray (opt_asyncValidators opts)\<rparr>)"

text \<open>A property key that is \<^verbatim>\<open>undefined\<close> (\<open>None\<close>) coerces to the string
  \<^verbatim>\<open>"undefined"\<close> when it indexes an object.\<close>

definition prop_key :: "string option \<Rightarrow> string" where
  "prop_key pn = (case pn of None \<Rightarrow> ''undefined'' | Some p \<Rightarrow> p)"

text \<open>Modelled from the spec: \<^verbatim>\<open>group.get(name)\<close> reads a child by name, and is
  \<^verbatim>\<open>null\<close> for a missing child and for a name that is \<^verbatim>\<open>undefined\<close>.\<close>

definition fg_get :: "(string \<times> addr) list \<Rightarrow> string option \<Rightarrow> addr option" where
  "fg_get cs pn = (case pn of None \<Rightarrow> None | Some p \<Rightarrow> map_of cs p)"

text \<open>Modelled from the spec: \<^verbatim>\<open>group.addControl(name, control)\<close> registers the child
  unless the group already has a child of that name, which it then keeps.\<close>

definition fg_addControl :: "string option \<Rightarrow> addr \<Rightarrow> (string \<times> addr) list \<Rightarrow> (string \<times> addr) list" where
  "fg_addControl pn a cs =
     (if map_of cs (prop_key pn) = None then cs @ [(prop_key pn, a)] else cs)"

text \<open>Modelled from the spec: \<^verbatim>\<open>group.removeControl(name)\<close> drops the child of that name.\<close>

definition fg_removeControl :: "string option \<Rightarrow> (string \<times> addr) list \<Rightarrow> (string \<times> addr) list" where
  "fg_removeControl pn cs = filter (\<lambda>kv. fst kv \<noteq> prop_key pn) cs"

subsection \<open>The registry\<close>

text \<open>
  \<^verbatim>\<open>const METADATA: any = {}\<close> maps the key of a class to an object that maps a form id to
  its \<^verbatim>\<open>FormGroup\<close>. The inner object is kept as an association list in the order in which
  the form ids were stored. \<open>fresh\<close> is the next unused address of the store.
\<close>

record state =
  METADATA :: "string \<rightharpoonup> (string \<times> addr) list"
  heap :: "addr \<rightharpoonup> AbstractControl"
  fresh :: addr

definition empty_state :: state where
  "empty_state = \<lparr>METADATA = Map.empty, heap = Map.empty, fresh = 0\<rparr>"

definition DEFAULT_GROUP :: string where
  "DEFAULT_GROUP = ''!A!N!S!R!!!THIS_IS_THE_DEFAULT_GROUP_ID!!A!N!S!R!''"

text \<open>
  The inner objects are created as \<^verbatim>\<open>{}\<close>, so a read of a name they do not own falls
  through to \<^verbatim>\<open>Object.prototype\<close>. These are its members; each of them is truthy.
\<close>

definition Object_prototype_names :: "string list" where
  "Object_prototype_names =
     [''constructor'', ''__defineGetter__'', ''__defineSetter__'', ''hasOwnProperty'',
      ''__lookupGetter__'', ''__lookupSetter__'', ''isPrototypeOf'', ''propertyIsEnumerable'',
      ''toString'', ''valueOf'', ''__proto__'', ''toLocaleString'']"

text \<open>What a read \<^verbatim>\<open>METADATA[type][f]\<close> can give.\<close>

datatype entry =
    Undefined
  | Ref addr
  | Inherited string

fun truthy :: "entry \<Rightarrow> bool" where
  "truthy Undefined = False"
| "truthy (Ref a) = True"
| "truthy (Inherited n) = True"

definition read_form :: "(string \<times> addr) list \<Rightarrow> string \<Rightarrow> entry" where
  "read_form forms f =
     (case map_of forms f of
        Some a \<Rightarrow> Ref a
      | None \<Rightarrow> if f \<in> set Object_prototype_names then Inherited f else Undefined)"

text \<open>
  \<^verbatim>\<open>
  function normalizeFormId(type: any, formId: FormIdType = undefined): string[] {
      const forms = !!formId ? (Array.isArray(formId) ? formId : [formId]) : [type.name];
      return forms.map(f => f === DEFAULT_GROUP ? type.name : f);
  }
  \<close>
  The empty string is falsy, an array (also the empty one) is truthy.
\<close>

definition normalizeFormId :: "ModelType \<Rightarrow> FormIdType \<Rightarrow> string list" where
  "normalizeFormId type formId =
     (let forms = (case formId of
                     NoFormId \<Rightarrow> [type_name type]
                   | FormId s \<Rightarrow> if s = [] then [type_name type] else [s]
                   | FormIds ss \<Rightarrow> ss)
      in map (\<lambda>f. if f = DEFAULT_GROUP then type_name type else f) forms)"

text \<open>
  \<^verbatim>\<open>
  function getFormGroups(target: any, formId: FormIdType): FormGroup[] {
      return normalizeFormId(target, formId).map(f => METADATA[target][f]);
  }
  \<close>
  The callback runs once per name; with \<^verbatim>\<open>METADATA[target]\<close> undefined its first run
  raises.
\<close>

definition getFormGroups :: "state \<Rightarrow> ModelType \<Rightarrow> FormIdType \<Rightarrow> error + entry list" where
  "getFormGroups st target formId =
     (let fs = normalizeFormId target formId
      in if fs = [] then Inr []
         else (case METADATA st (type_key target) of
                 None \<Rightarrow> Inl TypeError
               | Some forms \<Rightarrow> Inr (map (read_form forms) fs)))"

text \<open>
  \<^verbatim>\<open>
  function initializeMetadata(target: any, formId: FormIdType = undefined) {
      if (!METADATA[target]) {
          METADATA[target] = {}
      }
      formId = normalizeFormId(target, formId);
      formId.forEach(f => {
          if (!METADATA[target][f]) {
              METADATA[target][f] = new FormGroup({})
          }
      })
  }
  \<close>
\<close>

definition ensure_type :: "ModelType \<Rightarrow> state \<Rightarrow> state" where
  "ensure_type target st =
     (case METADATA st (type_key target) of
        None \<Rightarrow> st\<lparr>METADATA := (METADATA st)(type_key target \<mapsto> [])\<rparr>
      | Some forms \<Rightarrow> st)"

definition ensure_form :: "ModelType \<Rightarrow> state \<Rightarrow> string \<Rightarrow> state" where
  "ensure_form target st f =
     (case METADATA st (type_key target) of
        None \<Rightarrow> st
      | Some forms \<Rightarrow>
          if truthy (read_form forms f) then st
          else st\<lparr>METADATA := (METADATA st)(type_key target \<mapsto> forms @ [(f, fresh st)]),
                  heap := (heap st)(fresh st \<mapsto> new_FormGroup),
                  fresh := Suc (fresh st)\<rparr>)"

definition initializeMetadata :: "ModelType \<Rightarrow> FormIdType \<Rightarrow> state \<Rightarrow> state" where
  "initializeMetadata target formId st =
     foldl (ensure_form target) (ensure_type target st) (normalizeFormId target formId)"

subsection \<open>Decorators\<close>

text \<open>\<^verbatim>\<open>array.forEach(body)\<close> with a body that changes the registry and may raise.\<close>

fun forEach :: "('a \<Rightarrow> state \<Rightarrow> error + state) \<Rightarrow> 'a list \<Rightarrow> state \<Rightarrow> error + state" where
  "forEach body [] st = Inr st"
| "forEach body (x # xs) st =
     (case body x st of Inl e \<Rightarrow> Inl e | Inr st' \<Rightarrow> forEach body xs st')"

text \<open>A method call on what the registry gave: only a stored object has the methods of a
  control.\<close>

definition the_control :: "state \<Rightarrow> entry \<Rightarrow> error + (addr \<times> AbstractControl)" where
  "the_control st e =
     (case e of
        Ref a \<Rightarrow> (case heap st a of None \<Rightarrow> Inl TypeError | Some c \<Rightarrow> Inr (a, c))
      | Undefined \<Rightarrow> Inl TypeError
      | Inherited n \<Rightarrow> Inl TypeError)"

text \<open>
  \<^verbatim>\<open>
  export function FormGroupTarget(formId: FormIdType = undefined) {
      return (target: any) => {
          initializeMetadata(target, formId);
      }
  }
  \<close>
\<close>

definition FormGroupTarget :: "FormIdType \<Rightarrow> ModelType \<Rightarrow> state \<Rightarrow> error + state" where
  "FormGroupTarget formId target st = Inr (initializeMetadata target formId st)"

text \<open>
  \<^verbatim>\<open>
  export function FormGroupValidators(validators, formId: FormIdType = undefined) {
      return (target: any) => {
          initializeMetadata(target, formId);
          getFormGroups(target, formId).forEach(formGroup => formGroup.addValidators(validators))
      }
  }
  \<close>
\<close>

definition addValidators :: "ValidatorFn fns \<Rightarrow> entry \<Rightarrow> state \<Rightarrow> error + state" where
  "addValidators validators formGroup st =
     (case the_control st formGroup of
        Inl e \<Rightarrow> Inl e
      | Inr (a, c) \<Rightarrow> Inr (st\<lparr>heap := (heap st)(a \<mapsto> ac_addValidators validators c)\<rparr>))"

definition FormGroupValidators ::
  "ValidatorFn fns \<Rightarrow> FormIdType \<Rightarrow> ModelType \<Rightarrow> state \<Rightarrow> error + state" where
  "FormGroupValidators validators formId target st =
     (let st1 = initializeMetadata target formId st
      in case getFormGroups st1 target formId of
           Inl e \<Rightarrow> Inl e
         | Inr formGroups \<Rightarrow> forEach (addValidators validators) formGroups st1)"

text \<open>\<^verbatim>\<open>FormGroupAsyncValidators\<close> is the same with \<^verbatim>\<open>addAsyncValidators\<close>.\<close>

definition addAsyncValidators :: "AsyncValidatorFn fns \<Rightarrow> entry \<Rightarrow> state \<Rightarrow> error + state" where
  "addAsyncValidators validators formGroup st =
     (case the_control st formGroup of
        Inl e \<Rightarrow> Inl e
      | Inr (a, c) \<Rightarrow> Inr (st\<lparr>heap := (heap st)(a \<mapsto> ac_addAsyncValidators validators c)\<rparr>))"

definition FormGroupAsyncValidators ::
  "AsyncValidatorFn fns \<Rightarrow> FormIdType \<Rightarrow> ModelType \<Rightarrow> state \<Rightarrow> error + state" where
  "FormGroupAsyncValidators validators formId target st =
     (let st1 = initializeMetadata target formId st
      in case getFormGroups st1 target formId of
           Inl e \<Rightarrow> Inl e
         | Inr formGroups \<Rightarrow> forEach (addAsyncValidators validators) formGroups st1)"

subsection \<open>Field decorators\<close>

text \<open>
  The three field decorators start alike:
  \<^verbatim>\<open>
  const type = target.constructor.name == Function.name ? target : target.constructor;
  if (descriptor != undefined) {
      propName = Object.keys(new target())[descriptor];
  }
  \<close>
  The model is given \<open>type\<close>. On a property the decorator receives the property's name and
  no third argument; on a constructor parameter it receives the parameter's position, and
  the name is read at that position in the keys of a new instance (\<^verbatim>\<open>undefined\<close> when
  there is no such position).
\<close>

definition acting_propName :: "ModelType \<Rightarrow> string \<Rightarrow> nat option \<Rightarrow> string option" where
  "acting_propName type propName descriptor =
     (case descriptor of
        None \<Rightarrow> Some propName
      | Some i \<Rightarrow>
          (let keys = map fst (type_instance type)
           in if i < length keys then Some (keys ! i) else None))"

text \<open>\<^verbatim>\<open>new type()[propName]\<close>\<close>

definition read_property :: "ModelType \<Rightarrow> string option \<Rightarrow> jsval" where
  "read_property type pn =
     (case map_of (type_instance type) (prop_key pn) of None \<Rightarrow> JUndefined | Some v \<Rightarrow> v)"

text \<open>Modelled from the spec: \<^verbatim>\<open>ctrl.value\<close> is what a control holds, and for a group the
  object made of its children's values. The recursion through the store is bounded by
  \<open>n\<close>.\<close>

fun value_upto :: "nat \<Rightarrow> (addr \<rightharpoonup> AbstractControl) \<Rightarrow> addr \<Rightarrow> jsval" where
  "value_upto 0 h a = JUndefined"
| "value_upto (Suc n) h a =
     (case h a of
        None \<Rightarrow> JUndefined
      | Some c \<Rightarrow>
          (case ac_kind c of
             Control v \<Rightarrow> v
           | Group cs \<Rightarrow> JObj (map (\<lambda>kv. (fst kv, value_upto n h (snd kv))) cs)))"

definition control_value :: "state \<Rightarrow> addr \<Rightarrow> jsval" where
  "control_value st a = value_upto (Suc (fresh st)) (heap st) a"

text \<open>Modelled from the spec: \<^verbatim>\<open>ctrl.asyncValidator\<close>, the asynchronous rule of a control;
  the empty list stands for \<^verbatim>\<open>null\<close>.\<close>

definition control_asyncValidator :: "state \<Rightarrow> addr \<Rightarrow> AsyncValidatorFn list" where
  "control_asyncValidator st a =
     (case heap st a of None \<Rightarrow> [] | Some c \<Rightarrow> ac_asyncValidators c)"

text \<open>A call of a \<^verbatim>\<open>FormGroup\<close> method on what the registry gave: the receiver has to be
  a stored group.\<close>

definition the_group :: "state \<Rightarrow> entry \<Rightarrow> error + (addr \<times> (string \<times> addr) list)" where
  "the_group st e =
     (case the_control st e of
        Inl err \<Rightarrow> Inl err
      | Inr (a, c) \<Rightarrow> (case ac_kind c of Control v \<Rightarrow> Inl TypeError | Group cs \<Rightarrow> Inr (a, cs)))"

definition update_children ::
  "((string \<times> addr) list \<Rightarrow> (string \<times> addr) list) \<Rightarrow> addr \<Rightarrow> state \<Rightarrow> state" where
  "update_children f g st =
     (case heap st g of
        None \<Rightarrow> st
      | Some c \<Rightarrow>
          (case ac_kind c of
             Control v \<Rightarrow> st
           | Group cs \<Rightarrow> st\<lparr>heap := (heap st)(g \<mapsto> c\<lparr>ac_kind := Group (f cs)\<rparr>)\<rparr>))"

text \<open>\<^verbatim>\<open>formGroup.addControl(propName, new FormControl(...))\<close>: the new control is stored
  at the next unused address.\<close>

definition addControl_new :: "addr \<Rightarrow> string option \<Rightarrow> AbstractControl \<Rightarrow> state \<Rightarrow> state" where
  "addControl_new g pn c st =
     update_children (fg_addControl pn (fresh st)) g
       (st\<lparr>heap := (heap st)(fresh st \<mapsto> c), fresh := Suc (fresh st)\<rparr>)"

text \<open>
  \<^verbatim>\<open>
  export function FormControlTarget(validatorsOrOptions = null, formId = undefined) {
      return (target: any, propName: string, descriptor: any = null) => {
          ...
          initializeMetadata(type, formId);
          getFormGroups(type, formId).forEach(formGroup => {
              if (!formGroup.get(propName)) {
                  formGroup.addControl(propName, new FormControl(
                      new type()[propName],
                      validatorsOrOptions
                  ));
              } else {
                  const ctrl = formGroup.get(propName);
                  formGroup.removeControl(propName);
                  formGroup.addControl(propName, new FormControl(
                      ctrl?.value,
                      validatorsOrOptions,
                      ctrl?.asyncValidator
                  ));
              }
          });
      }
  }
  \<close>
\<close>

definition FormControlTarget_body ::
  "validatorsOrOptions \<Rightarrow> ModelType \<Rightarrow> string option \<Rightarrow> entry \<Rightarrow> state \<Rightarrow> error + state" where
  "FormControlTarget_body validatorsOrOptions type pn formGroup st =
     (case the_group st formGroup of
        Inl e \<Rightarrow> Inl e
      | Inr (g, cs) \<Rightarrow>
          (case fg_get cs pn of
             None \<Rightarrow>
               Inr (addControl_new g pn
                      (new_FormControl (read_property type pn) validatorsOrOptions []) st)
           | Some ctrl \<Rightarrow>
               (let st1 = update_children (fg_removeControl pn) g st
                in Inr (addControl_new g pn
                          (new_FormControl (control_value st1 ctrl) validatorsOrOptions
                             (control_asyncValidator st1 ctrl)) st1))))"

definition FormControlTarget ::
  "validatorsOrOptions \<Rightarrow> FormIdType \<Rightarrow> ModelType \<Rightarrow> string \<Rightarrow> nat option \<Rightarrow> state
     \<Rightarrow> error + state" where
  "FormControlTarget validatorsOrOptions formId type propName descriptor st =
     (let pn = acting_propName type propName descriptor;
          st1 = initializeMetadata type formId st
      in case getFormGroups st1 type formId of
           Inl e \<Rightarrow> Inl e
         | Inr formGroups \<Rightarrow>
             forEach (FormControlTarget_body validatorsOrOptions type pn) formGroups st1)"

text \<open>
  \<^verbatim>\<open>
  getFormGroups(type, formId).forEach(formGroup => {
      if (!formGroup.get(propName)) {
          formGroup.addControl(propName, new FormControl(
              new type()[propName],
              null,
              validators
          ));
      } else {
          formGroup.get(propName)?.addAsyncValidators(validators);
      }
  });
  \<close>
\<close>

definition FormControlAsyncValidators_body ::
  "AsyncValidatorFn fns \<Rightarrow> ModelType \<Rightarrow> string option \<Rightarrow> entry \<Rightarrow> state \<Rightarrow> error + state" where
  "FormControlAsyncValidators_body validators type pn formGroup st =
     (case the_group st formGroup of
        Inl e \<Rightarrow> Inl e
      | Inr (g, cs) \<Rightarrow>
          (case fg_get cs pn of
             None \<Rightarrow>
               Inr (addControl_new g pn
                      (new_FormControl (read_property type pn) NoRules
                         (makeValidatorsArray (Some validators))) st)
           | Some ctrl \<Rightarrow> addAsyncValidators validators (Ref ctrl) st))"

definition FormControlAsyncValidators ::
  "AsyncValidatorFn fns \<Rightarrow> FormIdType \<Rightarrow> ModelType \<Rightarrow> string \<Rightarrow> nat option \<Rightarrow> state
     \<Rightarrow> error + state" where
  "FormControlAsyncValidators validators formId type propName descriptor st =
     (let pn = acting_propName type propName descriptor;
          st1 = initializeMetadata type formId st
      in case getFormGroups st1 type formId of
           Inl e \<Rightarrow> Inl e
         | Inr formGroups \<Rightarrow>
             forEach (FormControlAsyncValidators_body validators type pn) formGroups st1)"

text \<open>
  \<^verbatim>\<open>
  export function NestedFormGroup(sourceType, sourceFormId = undefined, targetFormId = undefined) {
      return (target: any, propName: string, descriptor: any = null) => {
          ...
          initializeMetadata(type, targetFormId);
          getFormGroups(type, targetFormId).forEach(formGroup => {
              let nestedFormGroup = (getFormGroups(sourceType, sourceFormId) || [])[0];
              if (nestedFormGroup) {
                  formGroup.addControl(propName, nestedFormGroup);
              }
          });
      }
  }
  \<close>
  \<^verbatim>\<open>sourceFormId\<close> is a string or \<^verbatim>\<open>undefined\<close>. When what was read for the source is
  a member of \<^verbatim>\<open>Object.prototype\<close>, the library keeps a child the group already has under
  that name and otherwise fails to adopt the value.
\<close>

definition NestedFormGroup_body ::
  "ModelType \<Rightarrow> string option \<Rightarrow> string option \<Rightarrow> entry \<Rightarrow> state \<Rightarrow> error + state" where
  "NestedFormGroup_body sourceType sourceFormId pn formGroup st =
     (case getFormGroups st sourceType
             (case sourceFormId of None \<Rightarrow> NoFormId | Some s \<Rightarrow> FormId s) of
        Inl e \<Rightarrow> Inl e
      | Inr found \<Rightarrow>
          (case (case found of [] \<Rightarrow> Undefined | x # xs \<Rightarrow> x) of
             Undefined \<Rightarrow> Inr st
           | Ref nested \<Rightarrow>
               (case the_group st formGroup of
                  Inl e \<Rightarrow> Inl e
                | Inr (g, cs) \<Rightarrow> Inr (update_children (fg_addControl pn nested) g st))
           | Inherited n \<Rightarrow>
               (case the_group st formGroup of
                  Inl e \<Rightarrow> Inl e
                | Inr (g, cs) \<Rightarrow>
                    if map_of cs (prop_key pn) = None then Inl TypeError else Inr st)))"

definition NestedFormGroup ::
  "ModelType \<Rightarrow> string option \<Rightarrow> FormIdType \<Rightarrow> ModelType \<Rightarrow> string \<Rightarrow> nat option \<Rightarrow> state
     \<Rightarrow> error + state" where
  "NestedFormGroup sourceType sourceFormId targetFormId type propName descriptor st =
     (let pn = acting_propName type propName descriptor;
          st1 = initializeMetadata type targetFormId st
      in case getFormGroups st1 type targetFormId of
           Inl e \<Rightarrow> Inl e
         | Inr formGroups \<Rightarrow>
             forEach (NestedFormGroup_body sourceType sourceFormId pn) formGroups st1)"

subsection \<open>Accessors\<close>

text \<open>
  \<^verbatim>\<open>
  export function toFormGroup<T>(type: any, formId: string | null = null): ModelFormGroup<T> {
      const f = formId ? formId : type.name;
      return METADATA[type][f];
  }
  \<close>
\<close>

definition toFormGroup :: "ModelType \<Rightarrow> string option \<Rightarrow> state \<Rightarrow> error + entry" where
  "toFormGroup type formId st =
     (let f = (case formId of
                 None \<Rightarrow> type_name type
               | Some s \<Rightarrow> if s = [] then type_name type else s)
      in case METADATA st (type_key type) of
           None \<Rightarrow> Inl TypeError
         | Some forms \<Rightarrow> Inr (read_form forms f))"

text \<open>
  \<^verbatim>\<open>
  export function toFormGroups<T>(t: any, formIds: string[] = []): ModelFormGroup<T>[] {
      if (formIds.length > 0) {
          return formIds.map(f => METADATA[t][f]);
      }
      return METADATA[t];
  }
  \<close>
  The first \<^verbatim>\<open>return\<close> gives an array, the second gives \<^verbatim>\<open>METADATA[t]\<close> itself: the
  object that maps the form ids of \<open>t\<close> to their groups, or \<^verbatim>\<open>undefined\<close>.
\<close>

datatype form_groups =
    Array "entry list"
  | FormsObject "(string \<times> addr) list"
  | NoFormsObject

definition toFormGroups :: "ModelType \<Rightarrow> string list \<Rightarrow> state \<Rightarrow> error + form_groups" where
  "toFormGroups t formIds st =
     (if length formIds > 0 then
        (case METADATA st (type_key t) of
           None \<Rightarrow> Inl TypeError
         | Some forms \<Rightarrow> Inr (Array (map (read_form forms) formIds)))
      else
        (case METADATA st (type_key t) of
           None \<Rightarrow> Inr NoFormsObject
         | Some forms \<Rightarrow> Inr (FormsObject forms)))"

subsection \<open>Reachable registries\<close>

text \<open>The address the registry holds for a form id of a type, if it holds one.\<close>

definition form_address :: "state \<Rightarrow> ModelType \<Rightarrow> string \<Rightarrow> addr option" where
  "form_address st type f =
     (case METADATA st (type_key type) of None \<Rightarrow> None | Some forms \<Rightarrow> map_of forms f)"

definition registered :: "state \<Rightarrow> string \<Rightarrow> string \<Rightarrow> addr \<Rightarrow> bool" where
  "registered st k f a \<longleftrightarrow> (\<exists>forms. METADATA st k = Some forms \<and> map_of forms f = Some a)"

definition is_group :: "state \<Rightarrow> addr \<Rightarrow> bool" where
  "is_group st a \<longleftrightarrow> (\<exists>c cs. heap st a = Some c \<and> ac_kind c = Group cs)"

text \<open>
  What every registry built by the decorators satisfies: the store is used below \<open>fresh\<close>
  only, every registered address holds a group, and no address is registered twice.
\<close>

definition wf_state :: "state \<Rightarrow> bool" where
  "wf_state st \<longleftrightarrow>
     (\<forall>a. heap st a \<noteq> None \<longrightarrow> a < fresh st) \<and>
     (\<forall>k f a. registered st k f a \<longrightarrow> is_group st a) \<and>
     (\<forall>k f k' f' a. registered st k f a \<longrightarrow> registered st k' f' a \<longrightarrow> k = k' \<and> f = f')"

text \<open>A step that leaves the registry alone, allocates upwards and changes the store below
  \<open>fresh\<close> only at the addresses in \<open>A\<close>, where a group stays a group.\<close>

definition touches_only :: "addr set \<Rightarrow> state \<Rightarrow> state \<Rightarrow> bool" where
  "touches_only A st st' \<longleftrightarrow>
     METADATA st' = METADATA st \<and>
     fresh st \<le> fresh st' \<and>
     (\<forall>a. a < fresh st \<longrightarrow> a \<notin> A \<longrightarrow> heap st' a = heap st a) \<and>
     (\<forall>a. is_group st a \<longrightarrow> is_group st' a) \<and>
     (\<forall>a. heap st' a \<noteq> None \<longrightarrow> heap st a \<noteq> None \<or> (fresh st \<le> a \<and> a < fresh st'))"

definition entry_addrs :: "entry list \<Rightarrow> addr set" where
  "entry_addrs es = {a. Ref a \<in> set es}"

text \<open>The synchronous rules that an argument which is not an options object asks for.\<close>

definition rules_of :: "validatorsOrOptions \<Rightarrow> ValidatorFn list" where
  "rules_of v =
     (case v of NoRules \<Rightarrow> [] | Rules vs \<Rightarrow> makeValidatorsArray (Some vs) | Options opts \<Rightarrow> [])"

definition is_options :: "validatorsOrOptions \<Rightarrow> bool" where
  "is_options v = (case v of Options opts \<Rightarrow> True | NoRules \<Rightarrow> False | Rules vs \<Rightarrow> False)"

text \<open>\<^verbatim>\<open>METADATA[type]\<close> is truthy.\<close>

definition type_registered :: "state \<Rightarrow> ModelType \<Rightarrow> bool" where
  "type_registered st type \<longleftrightarrow> METADATA st (type_key type) \<noteq> None"

text \<open>\<^verbatim>\<open>METADATA[type][f]\<close> is truthy.\<close>

definition has_form :: "state \<Rightarrow> ModelType \<Rightarrow> string \<Rightarrow> bool" where
  "has_form st type f =
     (case METADATA st (type_key type) of
        None \<Rightarrow> False
      | Some forms \<Rightarrow> truthy (read_form forms f))"

text \<open>What it is for a decorator to leave alone the form \<open>m\<close> of the class with key \<open>k\<close>:
  the form is registered at the address it had (or not at all, as before), the group
  stored there is as it was, with the same children and the same rules, and so is every
  \<^verbatim>\<open>FormControl\<close> that was stored.\<close>

definition leaves_alone :: "string \<Rightarrow> string \<Rightarrow> state \<Rightarrow> state \<Rightarrow> bool" where
  "leaves_alone k m st st' \<longleftrightarrow>
     (\<forall>a. registered st' k m a \<longleftrightarrow> registered st k m a) \<and>
     (\<forall>a. registered st k m a \<longrightarrow> heap st' a = heap st a) \<and>
     (\<forall>c leaf v. heap st c = Some leaf \<longrightarrow> ac_kind leaf = Control v \<longrightarrow> heap st' c = Some leaf)"

text \<open>The child that the group stored at \<open>g\<close> has under the name \<open>q\<close>.\<close>

definition get_field :: "state \<Rightarrow> addr \<Rightarrow> string \<Rightarrow> addr option" where
  "get_field st g q =
     (case heap st g of
        None \<Rightarrow> None
      | Some c \<Rightarrow> (case ac_kind c of Control v \<Rightarrow> None | Group cs \<Rightarrow> map_of cs q))"

text \<open>The form id under which \<^verbatim>\<open>NestedFormGroup\<close> looks up its source:
  \<^verbatim>\<open>normalizeFormId(sourceType, sourceFormId)[0]\<close>.\<close>

definition nested_form_id :: "ModelType \<Rightarrow> string option \<Rightarrow> string" where
  "nested_form_id sourceType sourceFormId =
     (case sourceFormId of
        None \<Rightarrow> type_name sourceType
      | Some s \<Rightarrow> if s = [] \<or> s = DEFAULT_GROUP then type_name sourceType else s)"

text \<open>The form that \<^verbatim>\<open>toFormGroup(type, formId)\<close> reads:
  \<^verbatim>\<open>formId ? formId : type.name\<close>, the form id itself unless it is omitted or the empty
  string.\<close>

definition requested_form :: "ModelType \<Rightarrow> string option \<Rightarrow> string" where
  "requested_form type formId =
     (case formId of
        None \<Rightarrow> type_name type
      | Some s \<Rightarrow> if s = [] then type_name type else s)"

text \<open>The property \<open>q\<close> of \<^verbatim>\<open>new type()\<close>.\<close>

definition instance_value :: "ModelType \<Rightarrow> string \<Rightarrow> jsval" where
  "instance_value type q =
     (case map_of (type_instance type) q of None \<Rightarrow> JUndefined | Some v \<Rightarrow> v)"

text \<open>The group stored at \<open>g\<close> has under the name \<open>q\<close> a \<^verbatim>\<open>FormControl\<close> that holds \<open>w\<close>
  and is stored at \<open>n\<close> or above.\<close>

definition field_control :: "addr \<Rightarrow> state \<Rightarrow> addr \<Rightarrow> string \<Rightarrow> jsval \<Rightarrow> bool" where
  "field_control n st g q w \<longleftrightarrow>
     (\<exists>a leaf. get_field st g q = Some a \<and> n \<le> a \<and> heap st a = Some leaf \<and>
               ac_kind leaf = Control w)"

text \<open>What a control made now for the field \<open>q\<close> of the group \<open>g\<close> is to hold: the value of
  the \<^verbatim>\<open>FormControl\<close> that the group has for the field, or the property of
  \<^verbatim>\<open>new type()\<close> when the group lacks the field.\<close>

definition field_expects :: "ModelType \<Rightarrow> state \<Rightarrow> addr \<Rightarrow> string \<Rightarrow> jsval \<Rightarrow> bool" where
  "field_expects type st g q w \<longleftrightarrow>
     (get_field st g q = None \<and> w = instance_value type q) \<or> field_control 0 st g q w"

subsection \<open>The classes of the test suite\<close>

text \<open>
  \<^verbatim>\<open>
  class LoginRequest { username: string = ''; password: string = ''; }
  class ProfileRequest { birthday: Date = new Date(); }
  \<close>
  The date is given by its time value.
\<close>

definition LoginRequest :: ModelType where
  "LoginRequest =
     \<lparr>type_name = ''LoginRequest'',
      type_key = ''class LoginRequest'',
      type_instance = [(''username'', JStr []), (''password'', JStr [])]\<rparr>"

definition ProfileRequest :: ModelType where
  "ProfileRequest =
     \<lparr>type_name = ''ProfileRequest'',
      type_key = ''class ProfileRequest'',
      type_instance = [(''birthday'', JNum 0)]\<rparr>"

text \<open>
  The class of the examples in the documentation of the decorators:
  \<^verbatim>\<open>
  class InvoiceRequest {
    public num: string = '001';
    constructor(public date: Date = new Date()) { }
  }
  \<close>
\<close>

definition InvoiceRequest :: ModelType where
  "InvoiceRequest =
     \<lparr>type_name = ''InvoiceRequest'',
      type_key = ''class InvoiceRequest'',
      type_instance = [(''date'', JNum 0), (''num'', JStr ''001'')]\<rparr>"

text \<open>
  The registry after \<^verbatim>\<open>@FormControlAsyncValidators(v7)\<close> on \<^verbatim>\<open>username\<close>, once the
  user has typed into the control.
\<close>

definition login_async_state :: state where
  "login_async_state =
     \<lparr>METADATA = [''class LoginRequest'' \<mapsto> [(''LoginRequest'', 0)]],
      heap = [0 \<mapsto> \<lparr>ac_kind = Group [(''username'', 1)], ac_validators = [],
                        ac_asyncValidators = []\<rparr>,
              1 \<mapsto> \<lparr>ac_kind = Control (JStr ''typed''), ac_validators = [],
                        ac_asyncValidators = [7]\<rparr>],
      fresh = 2\<rparr>"

text \<open>
  \<^verbatim>\<open>LoginRequest\<close> with its default form and the form \<^verbatim>\<open>"secondary"\<close>, each with a control
  for \<^verbatim>\<open>username\<close>; the one of the default form has the synchronous rule 10.
\<close>

definition login_two_forms_state :: state where
  "login_two_forms_state =
     \<lparr>METADATA = [''class LoginRequest'' \<mapsto> [(''LoginRequest'', 0), (''secondary'', 1)]],
      heap = [0 \<mapsto> \<lparr>ac_kind = Group [(''username'', 2)], ac_validators = [],
                        ac_asyncValidators = []\<rparr>,
              1 \<mapsto> \<lparr>ac_kind = Group [(''username'', 3)], ac_validators = [],
                        ac_asyncValidators = []\<rparr>,
              2 \<mapsto> \<lparr>ac_kind = Control (JStr []), ac_validators = [10],
                        ac_asyncValidators = []\<rparr>,
              3 \<mapsto> \<lparr>ac_kind = Control (JStr []), ac_validators = [],
                        ac_asyncValidators = []\<rparr>],
      fresh = 4\<rparr>"

text \<open>The registry after \<^verbatim>\<open>@FormGroupTarget([DEFAULT_GROUP, "editProfileForm"])\<close> on
  \<^verbatim>\<open>ProfileRequest\<close>.\<close>

definition profile_forms_state :: state where
  "profile_forms_state =
     \<lparr>METADATA = [''class ProfileRequest'' \<mapsto>
                   [(''ProfileRequest'', 0), (''editProfileForm'', 1)]],
      heap = [0 \<mapsto> new_FormGroup, 1 \<mapsto> new_FormGroup],
      fresh = 2\<rparr>"

section \<open>Properties\<close>

subsection \<open>The sentinel in the accessors\<close>

lemma DEFAULT_GROUP_not_LoginRequest: "DEFAULT_GROUP \<noteq> ''LoginRequest''"
  by (simp add: DEFAULT_GROUP_def)

lemma initializeMetadata_LoginRequest_default:
  "initializeMetadata LoginRequest NoFormId empty_state =
     \<lparr>METADATA = [''class LoginRequest'' \<mapsto> [(''LoginRequest'', 0)]],
      heap = [0 \<mapsto> new_FormGroup], fresh = Suc 0\<rparr>"
  by (simp add: initializeMetadata_def normalizeFormId_def ensure_type_def ensure_form_def
      read_form_def LoginRequest_def empty_state_def Object_prototype_names_def
      DEFAULT_GROUP_def)

text \<open>
  C2. The decorators map the sentinel \<^verbatim>\<open>DEFAULT_GROUP\<close> to the name of the type, the
  accessors do not: after \<^verbatim>\<open>@FormGroupTarget()\<close> on \<^verbatim>\<open>LoginRequest\<close>, \<^verbatim>\<open>toFormGroup\<close>
  without a form id gives the group, with the sentinel it gives \<^verbatim>\<open>undefined\<close>, and
  \<^verbatim>\<open>toFormGroups\<close> with the sentinel in the list gives an array holding \<^verbatim>\<open>undefined\<close>.
\<close>

theorem sentinel_not_resolved_by_accessors:
  "toFormGroup LoginRequest None (initializeMetadata LoginRequest NoFormId empty_state)
     = Inr (Ref 0) \<and>
   toFormGroup LoginRequest (Some DEFAULT_GROUP)
     (initializeMetadata LoginRequest NoFormId empty_state) = Inr Undefined \<and>
   toFormGroups LoginRequest [DEFAULT_GROUP]
     (initializeMetadata LoginRequest NoFormId empty_state) = Inr (Array [Undefined]) \<and>
   getFormGroups (initializeMetadata LoginRequest NoFormId empty_state) LoginRequest
     (FormIds [DEFAULT_GROUP]) = Inr [Ref 0]"
  unfolding initializeMetadata_LoginRequest_default
  by (simp add: toFormGroup_def toFormGroups_def getFormGroups_def normalizeFormId_def
      read_form_def LoginRequest_def Object_prototype_names_def DEFAULT_GROUP_def)

subsection \<open>\<^verbatim>\<open>initializeMetadata\<close>\<close>

lemma read_form_append:
  "\<not> truthy (read_form forms f) \<Longrightarrow>
   read_form (forms @ [(f, a)]) n = (if n = f then Ref a else read_form forms n)"
  by (auto simp: read_form_def map_of_append split: option.splits if_splits)

lemma map_of_append_new:
  "\<not> truthy (read_form forms f) \<Longrightarrow> map_of forms n = Some a \<Longrightarrow>
   map_of (forms @ [(f, b)]) n = Some a"
  by (auto simp: read_form_def map_add_def split: option.splits if_splits)

lemma ensure_form_noop:
  "has_form st type f \<Longrightarrow> ensure_form type st f = st"
  by (auto simp: has_form_def ensure_form_def split: option.splits)

lemma ensure_form_has_form:
  "type_registered st type \<Longrightarrow> has_form (ensure_form type st f) type f"
  by (auto simp: type_registered_def has_form_def ensure_form_def read_form_append split: option.splits)

lemma ensure_form_keeps_has_form:
  "has_form st type n \<Longrightarrow> has_form (ensure_form type st f) type n"
  by (auto simp: has_form_def ensure_form_def read_form_append split: option.splits)

lemma ensure_form_registered_type:
  "type_registered st type \<Longrightarrow> type_registered (ensure_form type st f) type"
  by (auto simp: type_registered_def ensure_form_def split: option.splits)

lemma ensure_forms_noop:
  "\<forall>f \<in> set fs. has_form st type f \<Longrightarrow> foldl (ensure_form type) st fs = st"
  by (induction fs arbitrary: st) (simp_all add: ensure_form_noop)

lemma ensure_forms_keeps_has_form:
  "has_form st type n \<Longrightarrow> has_form (foldl (ensure_form type) st fs) type n"
  by (induction fs arbitrary: st) (simp_all add: ensure_form_keeps_has_form)

lemma ensure_forms_registered_type:
  "type_registered st type \<Longrightarrow>
   type_registered (foldl (ensure_form type) st fs) type"
  by (induction fs arbitrary: st) (simp_all add: ensure_form_registered_type)

lemma ensure_forms_has_form:
  "type_registered st type \<Longrightarrow> f \<in> set fs \<Longrightarrow>
   has_form (foldl (ensure_form type) st fs) type f"
proof (induction fs arbitrary: st)
  case Nil
  then show ?case by simp
next
  case (Cons x xs)
  show ?case
  proof (cases "f = x")
    case True
    then show ?thesis
      using Cons.prems(1) by (simp add: ensure_forms_keeps_has_form ensure_form_has_form)
  next
    case False
    then show ?thesis
      using Cons by (simp add: ensure_form_registered_type)
  qed
qed

lemma ensure_type_registered: "type_registered (ensure_type type st) type"
  by (simp add: type_registered_def ensure_type_def split: option.splits)

lemma ensure_type_noop: "type_registered st type \<Longrightarrow> ensure_type type st = st"
  by (auto simp: type_registered_def ensure_type_def split: option.splits)

lemma initializeMetadata_registered:
  "type_registered (initializeMetadata type formId st) type"
  by (simp add: initializeMetadata_def ensure_forms_registered_type ensure_type_registered)

lemma initializeMetadata_has_form:
  "f \<in> set (normalizeFormId type formId) \<Longrightarrow>
   has_form (initializeMetadata type formId st) type f"
  by (simp add: initializeMetadata_def ensure_forms_has_form ensure_type_registered)

lemma initializeMetadata_noop:
  "type_registered st type \<Longrightarrow>
   \<forall>f \<in> set (normalizeFormId type formId). has_form st type f \<Longrightarrow>
   initializeMetadata type formId st = st"
  by (simp add: initializeMetadata_def ensure_type_noop ensure_forms_noop)

lemma initializeMetadata_idem:
  "initializeMetadata type formId (initializeMetadata type formId st) =
   initializeMetadata type formId st"
  by (rule initializeMetadata_noop)
     (simp_all add: initializeMetadata_registered initializeMetadata_has_form)

text \<open>What \<^verbatim>\<open>initializeMetadata\<close> keeps.\<close>

lemma ensure_form_heap_below:
  "a < fresh st \<Longrightarrow> heap (ensure_form type st f) a = heap st a"
  by (auto simp: ensure_form_def split: option.splits)

lemma ensure_form_fresh: "fresh st \<le> fresh (ensure_form type st f)"
  by (auto simp: ensure_form_def split: option.splits)

lemma ensure_form_registered:
  "registered st k n a \<Longrightarrow> registered (ensure_form type st f) k n a"
  by (auto simp: registered_def ensure_form_def map_of_append_new split: option.splits)

lemma ensure_forms_fresh: "fresh st \<le> fresh (foldl (ensure_form type) st fs)"
proof (induction fs arbitrary: st)
  case Nil
  then show ?case by simp
next
  case (Cons x xs)
  have "fresh st \<le> fresh (ensure_form type st x)" by (rule ensure_form_fresh)
  also have "\<dots> \<le> fresh (foldl (ensure_form type) (ensure_form type st x) xs)" by (rule Cons.IH)
  finally show ?case by simp
qed

lemma ensure_forms_heap_below:
  "a < fresh st \<Longrightarrow> heap (foldl (ensure_form type) st fs) a = heap st a"
proof (induction fs arbitrary: st)
  case Nil
  then show ?case by simp
next
  case (Cons x xs)
  have "a < fresh (ensure_form type st x)"
    using Cons.prems ensure_form_fresh [of st type x] by simp
  then show ?case
    using Cons.IH [of "ensure_form type st x"] Cons.prems by (simp add: ensure_form_heap_below)
qed

lemma ensure_forms_registered:
  "registered st k n a \<Longrightarrow> registered (foldl (ensure_form type) st fs) k n a"
  by (induction fs arbitrary: st) (simp_all add: ensure_form_registered)

lemma ensure_type_registered_keeps:
  "registered st k n a \<Longrightarrow> registered (ensure_type type st) k n a"
  by (auto simp: registered_def ensure_type_def split: option.splits)

lemma ensure_type_heap: "heap (ensure_type type st) = heap st"
  by (simp add: ensure_type_def split: option.splits)

lemma ensure_type_fresh: "fresh (ensure_type type st) = fresh st"
  by (simp add: ensure_type_def split: option.splits)

lemma initializeMetadata_heap_below:
  "a < fresh st \<Longrightarrow> heap (initializeMetadata type formId st) a = heap st a"
  by (simp add: initializeMetadata_def ensure_forms_heap_below ensure_type_fresh ensure_type_heap)

lemma initializeMetadata_fresh: "fresh st \<le> fresh (initializeMetadata type formId st)"
  using ensure_forms_fresh [of "ensure_type type st"] 
  by (simp add: initializeMetadata_def ensure_type_fresh)

lemma initializeMetadata_registered_keeps:
  "registered st k n a \<Longrightarrow> registered (initializeMetadata type formId st) k n a"
  by (simp add: initializeMetadata_def ensure_forms_registered ensure_type_registered_keeps)

text \<open>
  C8. \<^verbatim>\<open>initializeMetadata\<close> is idempotent and keeps what is there: running it twice
  gives the registry that running it once gives; when the type and every named form are
  already present it changes nothing; every form that was registered stays registered at
  the same address, and every object stored before is the same object afterwards, so a
  reference obtained earlier still denotes the group that later decorators change. It is a
  total function on registries: it has no failing branch.
\<close>

theorem initializeMetadata_idempotent_and_keeps:
  "initializeMetadata type formId (initializeMetadata type formId st) =
     initializeMetadata type formId st \<and>
   (type_registered st type \<longrightarrow>
      (\<forall>f \<in> set (normalizeFormId type formId). has_form st type f) \<longrightarrow>
      initializeMetadata type formId st = st) \<and>
   (\<forall>k f a. registered st k f a \<longrightarrow> registered (initializeMetadata type formId st) k f a) \<and>
   (\<forall>a. a < fresh st \<longrightarrow> heap (initializeMetadata type formId st) a = heap st a)"
  using initializeMetadata_idem initializeMetadata_noop initializeMetadata_registered_keeps
    initializeMetadata_heap_below by blast

theorem initializeMetadata_idempotent_and_keeps_witness:
  "type_registered (initializeMetadata LoginRequest NoFormId empty_state) LoginRequest \<and>
   normalizeFormId LoginRequest NoFormId = [''LoginRequest''] \<and>
   has_form (initializeMetadata LoginRequest NoFormId empty_state) LoginRequest ''LoginRequest'' \<and>
   initializeMetadata LoginRequest NoFormId (initializeMetadata LoginRequest NoFormId empty_state)
     = initializeMetadata LoginRequest NoFormId empty_state \<and>
   registered (initializeMetadata LoginRequest NoFormId empty_state)
     ''class LoginRequest'' ''LoginRequest'' 0 \<and>
   registered
     (initializeMetadata LoginRequest (FormId ''secondary'')
        (initializeMetadata LoginRequest NoFormId empty_state))
     ''class LoginRequest'' ''LoginRequest'' 0 \<and>
   0 < fresh (initializeMetadata LoginRequest NoFormId empty_state) \<and>
   heap (initializeMetadata LoginRequest (FormId ''secondary'')
          (initializeMetadata LoginRequest NoFormId empty_state)) 0
     = heap (initializeMetadata LoginRequest NoFormId empty_state) 0"
proof -
  let ?st = "initializeMetadata LoginRequest NoFormId empty_state"
  have reg: "type_registered ?st LoginRequest"
    by (rule initializeMetadata_registered)
  have names: "normalizeFormId LoginRequest NoFormId = [''LoginRequest'']"
    by (simp add: normalizeFormId_def LoginRequest_def)
  have forms: "has_form ?st LoginRequest ''LoginRequest''"
    by (rule initializeMetadata_has_form [where formId = NoFormId]) (simp add: names)
  have r0: "registered ?st ''class LoginRequest'' ''LoginRequest'' 0"
    unfolding initializeMetadata_LoginRequest_default by (simp add: registered_def)
  have f0: "0 < fresh ?st"
    unfolding initializeMetadata_LoginRequest_default by simp
  have all_forms: "\<forall>f \<in> set (normalizeFormId LoginRequest NoFormId). has_form ?st LoginRequest f"
    using forms by (simp add: names)
  show ?thesis
    using reg names forms all_forms r0 f0
      initializeMetadata_idempotent_and_keeps [of LoginRequest NoFormId ?st]
      initializeMetadata_idempotent_and_keeps [of LoginRequest "FormId ''secondary''" ?st]
    by blast
qed

subsection \<open>The invariant of the registry\<close>

lemma wf_stateI:
  assumes "\<And>a. heap st a \<noteq> None \<Longrightarrow> a < fresh st"
    and "\<And>k f a. registered st k f a \<Longrightarrow> is_group st a"
    and "\<And>k f k' f' a. registered st k f a \<Longrightarrow> registered st k' f' a \<Longrightarrow> k = k' \<and> f = f'"
  shows "wf_state st"
  unfolding wf_state_def using assms by blast

lemma wf_state_below: "wf_state st \<Longrightarrow> heap st a \<noteq> None \<Longrightarrow> a < fresh st"
  by (simp add: wf_state_def)

lemma wf_state_group: "wf_state st \<Longrightarrow> registered st k f a \<Longrightarrow> is_group st a"
  unfolding wf_state_def by blast

lemma wf_state_inj:
  "wf_state st \<Longrightarrow> registered st k f a \<Longrightarrow> registered st k' f' a \<Longrightarrow> k = k' \<and> f = f'"
  unfolding wf_state_def by blast

lemma is_group_below: "wf_state st \<Longrightarrow> is_group st a \<Longrightarrow> a < fresh st"
  by (rule wf_state_below) (auto simp: is_group_def)

lemma registered_below: "wf_state st \<Longrightarrow> registered st k f a \<Longrightarrow> a < fresh st"
  using is_group_below wf_state_group by blast

lemma wf_empty_state: "wf_state empty_state"
  by (simp add: wf_state_def empty_state_def registered_def)

lemma ensure_form_cases:
  "ensure_form type st f = st \<or>
   (\<exists>forms. METADATA st (type_key type) = Some forms \<and> map_of forms f = None \<and>
      ensure_form type st f =
        st\<lparr>METADATA := (METADATA st)(type_key type \<mapsto> forms @ [(f, fresh st)]),
           heap := (heap st)(fresh st \<mapsto> new_FormGroup),
           fresh := Suc (fresh st)\<rparr>)"
  by (auto simp: ensure_form_def read_form_def split: option.splits if_splits)

lemma registered_after_store:
  assumes "METADATA st (type_key type) = Some forms" and "map_of forms f = None"
  shows "registered
           (st\<lparr>METADATA := (METADATA st)(type_key type \<mapsto> forms @ [(f, b)]),
               heap := h, fresh := n\<rparr>) k g a
         \<longleftrightarrow> registered st k g a \<or> (k = type_key type \<and> g = f \<and> a = b)"
  using assms by (auto simp: registered_def map_add_def split: option.splits)

lemma wf_state_ensure_form:
  assumes "wf_state st"
  shows "wf_state (ensure_form type st f)"
proof -
  consider "ensure_form type st f = st"
    | forms where "METADATA st (type_key type) = Some forms" "map_of forms f = None"
      "ensure_form type st f =
        st\<lparr>METADATA := (METADATA st)(type_key type \<mapsto> forms @ [(f, fresh st)]),
           heap := (heap st)(fresh st \<mapsto> new_FormGroup),
           fresh := Suc (fresh st)\<rparr>"
    using ensure_form_cases by blast
  then show ?thesis
  proof cases
    case 1
    then show ?thesis using assms by simp
  next
    case 2
    note reg = registered_after_store [OF 2(1) 2(2)]
    show ?thesis
      unfolding 2(3)
    proof (rule wf_stateI)
      fix a
      assume "heap (st\<lparr>METADATA := (METADATA st)(type_key type \<mapsto> forms @ [(f, fresh st)]),
           heap := (heap st)(fresh st \<mapsto> new_FormGroup),
           fresh := Suc (fresh st)\<rparr>) a \<noteq> None"
      then show "a < fresh (st\<lparr>METADATA := (METADATA st)(type_key type \<mapsto> forms @ [(f, fresh st)]),
           heap := (heap st)(fresh st \<mapsto> new_FormGroup),
           fresh := Suc (fresh st)\<rparr>)"
        using wf_state_below [OF assms, of a] by (auto split: if_splits)
    next
      fix k g a
      assume "registered (st\<lparr>METADATA := (METADATA st)(type_key type \<mapsto> forms @ [(f, fresh st)]),
           heap := (heap st)(fresh st \<mapsto> new_FormGroup),
           fresh := Suc (fresh st)\<rparr>) k g a"
      then have "registered st k g a \<or> a = fresh st" by (auto simp: reg)
      then show "is_group (st\<lparr>METADATA := (METADATA st)(type_key type \<mapsto> forms @ [(f, fresh st)]),
           heap := (heap st)(fresh st \<mapsto> new_FormGroup),
           fresh := Suc (fresh st)\<rparr>) a"
        using wf_state_group [OF assms, of k g a]
        by (auto simp: is_group_def new_FormGroup_def)
    next
      fix k g k' g' a
      assume "registered (st\<lparr>METADATA := (METADATA st)(type_key type \<mapsto> forms @ [(f, fresh st)]),
           heap := (heap st)(fresh st \<mapsto> new_FormGroup),
           fresh := Suc (fresh st)\<rparr>) k g a"
        and "registered (st\<lparr>METADATA := (METADATA st)(type_key type \<mapsto> forms @ [(f, fresh st)]),
           heap := (heap st)(fresh st \<mapsto> new_FormGroup),
           fresh := Suc (fresh st)\<rparr>) k' g' a"
      then have "(registered st k g a \<or> (k = type_key type \<and> g = f \<and> a = fresh st)) \<and>
                 (registered st k' g' a \<or> (k' = type_key type \<and> g' = f \<and> a = fresh st))"
        by (simp add: reg)
      then show "k = k' \<and> g = g'"
        using wf_state_inj [OF assms, of k g a k' g'] registered_below [OF assms, of k g a]
          registered_below [OF assms, of k' g' a]
        by auto
    qed
  qed
qed

lemma wf_state_ensure_forms:
  "wf_state st \<Longrightarrow> wf_state (foldl (ensure_form type) st fs)"
  by (induction fs arbitrary: st) (simp_all add: wf_state_ensure_form)

lemma registered_ensure_type:
  "registered (ensure_type type st) k f a \<longleftrightarrow> registered st k f a"
  by (auto simp: registered_def ensure_type_def split: option.splits if_splits)

lemma wf_state_ensure_type: "wf_state st \<Longrightarrow> wf_state (ensure_type type st)"
  by (simp add: wf_state_def registered_ensure_type is_group_def ensure_type_heap ensure_type_fresh)

lemma wf_state_initializeMetadata:
  "wf_state st \<Longrightarrow> wf_state (initializeMetadata type formId st)"
  by (simp add: initializeMetadata_def wf_state_ensure_forms wf_state_ensure_type)

subsection \<open>An empty array of form ids\<close>

lemma normalizeFormId_empty_array: "normalizeFormId type (FormIds []) = []"
  by (simp add: normalizeFormId_def)

lemma normalizeFormId_omitted: "normalizeFormId type NoFormId = [type_name type]"
  by (simp add: normalizeFormId_def)

lemma initializeMetadata_empty_array:
  "initializeMetadata type (FormIds []) st = ensure_type type st"
  by (simp add: initializeMetadata_def normalizeFormId_empty_array)

lemma getFormGroups_empty_array: "getFormGroups st type (FormIds []) = Inr []"
  by (simp add: getFormGroups_def normalizeFormId_empty_array)

text \<open>
  C9, as the code has it. With an empty array as the form id, each of the six decorators
  targets no form: no group is created and none is changed (the store and \<open>fresh\<close> are
  as before, and the registered forms are the same). The registry is unchanged when the
  type is already registered; for a type not yet registered the decorator leaves one
  trace, an empty object of forms for the type. Without a form id the decorator targets
  the form named after the type.
\<close>

theorem empty_array_targets_nothing:
  "FormGroupTarget (FormIds []) type st = Inr (ensure_type type st) \<and>
   FormGroupValidators vs (FormIds []) type st = Inr (ensure_type type st) \<and>
   FormGroupAsyncValidators avs (FormIds []) type st = Inr (ensure_type type st) \<and>
   FormControlTarget vo (FormIds []) type p d st = Inr (ensure_type type st) \<and>
   FormControlAsyncValidators avs (FormIds []) type p d st = Inr (ensure_type type st) \<and>
   NestedFormGroup src sf (FormIds []) type p d st = Inr (ensure_type type st) \<and>
   heap (ensure_type type st) = heap st \<and>
   fresh (ensure_type type st) = fresh st \<and>
   (\<forall>k f a. registered (ensure_type type st) k f a \<longleftrightarrow> registered st k f a) \<and>
   (type_registered st type \<longrightarrow> ensure_type type st = st) \<and>
   (\<not> type_registered st type \<longrightarrow>
      METADATA (ensure_type type st) = (METADATA st)(type_key type \<mapsto> [])) \<and>
   normalizeFormId type (FormIds []) = [] \<and>
   normalizeFormId type NoFormId = [type_name type]"
  by (simp add: FormGroupTarget_def FormGroupValidators_def FormGroupAsyncValidators_def
      FormControlTarget_def FormControlAsyncValidators_def NestedFormGroup_def
      initializeMetadata_empty_array getFormGroups_empty_array normalizeFormId_empty_array
      normalizeFormId_omitted ensure_type_heap ensure_type_fresh registered_ensure_type
      ensure_type_noop)
     (simp add: type_registered_def ensure_type_def)

text \<open>
  C9, as stated, fails: \<^verbatim>\<open>@FormGroupTarget([])\<close> on a class that no decorator has seen
  changes the registry, since \<^verbatim>\<open>initializeMetadata\<close> stores \<^verbatim>\<open>METADATA[target] = {}\<close>
  before it looks at the form ids.
\<close>

theorem empty_array_changes_registry:
  "FormGroupTarget (FormIds []) LoginRequest empty_state \<noteq> Inr empty_state"
proof
  assume "FormGroupTarget (FormIds []) LoginRequest empty_state = Inr empty_state"
  then have "METADATA (ensure_type LoginRequest empty_state) = METADATA empty_state"
    by (simp add: FormGroupTarget_def initializeMetadata_empty_array)
  then have "METADATA (ensure_type LoginRequest empty_state) ''class LoginRequest''
               = METADATA empty_state ''class LoginRequest''"
    by simp
  then show False
    by (simp add: ensure_type_def empty_state_def LoginRequest_def)
qed

theorem empty_array_targets_nothing_witness:
  "\<not> type_registered empty_state LoginRequest \<and>
   METADATA (ensure_type LoginRequest empty_state)
     = (METADATA empty_state)(type_key LoginRequest \<mapsto> []) \<and>
   type_registered (ensure_type LoginRequest empty_state) LoginRequest \<and>
   ensure_type LoginRequest (ensure_type LoginRequest empty_state)
     = ensure_type LoginRequest empty_state \<and>
   FormControlTarget NoRules (FormIds []) LoginRequest ''username'' None empty_state
     = Inr (ensure_type LoginRequest empty_state)"
proof -
  have a: "\<not> type_registered empty_state LoginRequest"
    by (simp add: type_registered_def empty_state_def)
  have b: "type_registered (ensure_type LoginRequest empty_state) LoginRequest"
    by (rule ensure_type_registered)
  show ?thesis
    using a b
      empty_array_targets_nothing [of LoginRequest empty_state _ _ NoRules "''username''" None]
      empty_array_targets_nothing [of LoginRequest "ensure_type LoginRequest empty_state"]
    by blast
qed

subsection \<open>Reading what is not there\<close>

text \<open>
  C3, as stated, fails for a class that no decorator has seen: \<^verbatim>\<open>METADATA[type]\<close> is
  undefined, and \<^verbatim>\<open>toFormGroup\<close>, as well as \<^verbatim>\<open>toFormGroups\<close> with a non-empty list,
  read a property of it.
\<close>

theorem unregistered_type_lookup_raises:
  "toFormGroup LoginRequest None empty_state = Inl TypeError \<and>
   toFormGroups LoginRequest [''secondary''] empty_state = Inl TypeError"
  by (simp add: toFormGroup_def toFormGroups_def empty_state_def)

lemma read_form_absent:
  "map_of forms f = None \<Longrightarrow> f \<notin> set Object_prototype_names \<Longrightarrow> read_form forms f = Undefined"
  by (simp add: read_form_def)

text \<open>
  Two reads that do not give \<^verbatim>\<open>undefined\<close> although no decorator has initialised the form
  id: the empty string is falsy, so \<^verbatim>\<open>toFormGroup\<close> reads the default form instead; and
  the name of a member of \<^verbatim>\<open>Object.prototype\<close> reads that member.
\<close>

lemma empty_form_id_reads_default_form:
  "form_address (initializeMetadata LoginRequest NoFormId empty_state) LoginRequest [] = None \<and>
   toFormGroup LoginRequest (Some []) (initializeMetadata LoginRequest NoFormId empty_state)
     = Inr (Ref 0)"
  unfolding initializeMetadata_LoginRequest_default
  by (simp add: form_address_def toFormGroup_def read_form_def LoginRequest_def)

lemma inherited_name_is_not_undefined:
  "form_address (initializeMetadata LoginRequest NoFormId empty_state) LoginRequest
     ''constructor'' = None \<and>
   toFormGroup LoginRequest (Some ''constructor'')
     (initializeMetadata LoginRequest NoFormId empty_state) = Inr (Inherited ''constructor'')"
  unfolding initializeMetadata_LoginRequest_default
  by (simp add: form_address_def toFormGroup_def read_form_def LoginRequest_def
      Object_prototype_names_def)

text \<open>
  C3, as the code has it. For a registered type, \<^verbatim>\<open>toFormGroup(type, formId)\<close> returns
  \<^verbatim>\<open>undefined\<close> whenever the form it reads (the form id itself, or the name of the type
  when the form id is omitted or the empty string) has not been initialised and is not the
  name of a member of \<^verbatim>\<open>Object.prototype\<close>; \<^verbatim>\<open>toFormGroups\<close> with a non-empty list
  returns an array as long as the list, with \<^verbatim>\<open>undefined\<close> at each position of a name
  that has not been initialised and is not the name of a member of \<^verbatim>\<open>Object.prototype\<close>
  (the names are read as given). For a type that is not registered, \<^verbatim>\<open>toFormGroups\<close> with
  an empty list returns \<^verbatim>\<open>undefined\<close>. The accessors are functions of the registry and
  return no new one.
\<close>

theorem uninitialized_form_is_undefined:
  "(type_registered st type \<and> form_address st type (requested_form type formId) = None \<and>
      requested_form type formId \<notin> set Object_prototype_names \<longrightarrow>
      toFormGroup type formId st = Inr Undefined) \<and>
   (type_registered st type \<and> form_address st type f = None \<and>
      f \<notin> set Object_prototype_names \<longrightarrow>
      (\<forall>fs. fs \<noteq> [] \<longrightarrow>
         (\<exists>es. toFormGroups type fs st = Inr (Array es) \<and> length es = length fs \<and>
               (\<forall>i < length fs. fs ! i = f \<longrightarrow> es ! i = Undefined)))) \<and>
   (\<not> type_registered st type \<longrightarrow> toFormGroups type [] st = Inr NoFormsObject)"
  by (auto simp: type_registered_def form_address_def toFormGroup_def toFormGroups_def
      requested_form_def read_form_absent Let_def split: option.splits)

lemma initializeMetadata_LoginRequest_secondary:
  "initializeMetadata LoginRequest (FormId ''secondary'') empty_state =
     \<lparr>METADATA = [''class LoginRequest'' \<mapsto> [(''secondary'', 0)]],
      heap = [0 \<mapsto> new_FormGroup], fresh = Suc 0\<rparr>"
  by (simp add: initializeMetadata_def normalizeFormId_def ensure_type_def ensure_form_def
      read_form_def LoginRequest_def empty_state_def Object_prototype_names_def
      DEFAULT_GROUP_def)

theorem uninitialized_form_is_undefined_witness:
  "type_registered (initializeMetadata LoginRequest (FormId ''secondary'') empty_state)
     LoginRequest \<and>
   requested_form LoginRequest (Some []) = ''LoginRequest'' \<and>
   requested_form LoginRequest None = ''LoginRequest'' \<and>
   requested_form LoginRequest (Some ''other'') = ''other'' \<and>
   form_address (initializeMetadata LoginRequest (FormId ''secondary'') empty_state)
     LoginRequest ''LoginRequest'' = None \<and>
   form_address (initializeMetadata LoginRequest (FormId ''secondary'') empty_state)
     LoginRequest ''other'' = None \<and>
   ''LoginRequest'' \<notin> set Object_prototype_names \<and>
   ''other'' \<notin> set Object_prototype_names \<and>
   toFormGroup LoginRequest (Some [])
     (initializeMetadata LoginRequest (FormId ''secondary'') empty_state) = Inr Undefined \<and>
   toFormGroup LoginRequest None
     (initializeMetadata LoginRequest (FormId ''secondary'') empty_state) = Inr Undefined \<and>
   toFormGroup LoginRequest (Some ''other'')
     (initializeMetadata LoginRequest (FormId ''secondary'') empty_state) = Inr Undefined \<and>
   toFormGroup LoginRequest (Some ''secondary'')
     (initializeMetadata LoginRequest (FormId ''secondary'') empty_state) = Inr (Ref 0) \<and>
   (\<exists>es. toFormGroups LoginRequest [''secondary'', ''other'']
            (initializeMetadata LoginRequest (FormId ''secondary'') empty_state)
            = Inr (Array es) \<and> length es = 2 \<and> es ! 1 = Undefined) \<and>
   \<not> type_registered empty_state ProfileRequest \<and>
   toFormGroups ProfileRequest [] empty_state = Inr NoFormsObject"
proof -
  let ?st = "initializeMetadata LoginRequest (FormId ''secondary'') empty_state"
  have a: "type_registered ?st LoginRequest"
    by (rule initializeMetadata_registered)
  have r: "requested_form LoginRequest (Some []) = ''LoginRequest''"
    "requested_form LoginRequest None = ''LoginRequest''"
    "requested_form LoginRequest (Some ''other'') = ''other''"
    by (simp_all add: requested_form_def LoginRequest_def)
  have b: "form_address ?st LoginRequest ''LoginRequest'' = None"
    "form_address ?st LoginRequest ''other'' = None"
    unfolding initializeMetadata_LoginRequest_secondary
    by (simp_all add: form_address_def LoginRequest_def)
  have c: "''LoginRequest'' \<notin> set Object_prototype_names"
    "''other'' \<notin> set Object_prototype_names"
    by (simp_all add: Object_prototype_names_def)
  have d: "\<not> type_registered empty_state ProfileRequest"
    by (simp add: type_registered_def empty_state_def)
  have own: "toFormGroup LoginRequest (Some ''secondary'') ?st = Inr (Ref 0)"
    unfolding initializeMetadata_LoginRequest_secondary
    by (simp add: toFormGroup_def read_form_def LoginRequest_def)
  have e1: "toFormGroup LoginRequest (Some []) ?st = Inr Undefined"
    using uninitialized_form_is_undefined [of ?st LoginRequest "Some []"] a b(1) c(1)
    by (simp add: r)
  have e2: "toFormGroup LoginRequest None ?st = Inr Undefined"
    using uninitialized_form_is_undefined [of ?st LoginRequest None] a b(1) c(1)
    by (simp add: r)
  have e3: "toFormGroup LoginRequest (Some ''other'') ?st = Inr Undefined"
    using uninitialized_form_is_undefined [of ?st LoginRequest "Some ''other''"] a b(2) c(2)
    by (simp add: r)
  have "\<exists>es. toFormGroups LoginRequest [''secondary'', ''other''] ?st = Inr (Array es) \<and>
             length es = length [''secondary'', ''other''] \<and>
             (\<forall>i < length [''secondary'', ''other''].
                 [''secondary'', ''other''] ! i = ''other'' \<longrightarrow> es ! i = Undefined)"
    using uninitialized_form_is_undefined [of ?st LoginRequest _ "''other''"] a b(2) c(2)
    by blast
  then obtain es where es: "toFormGroups LoginRequest [''secondary'', ''other''] ?st = Inr (Array es)"
    "length es = 2"
    "\<forall>i < length [''secondary'', ''other''].
        [''secondary'', ''other''] ! i = ''other'' \<longrightarrow> es ! i = Undefined"
    by auto
  have e4: "es ! 1 = Undefined"
    using es(3) by auto
  have e5: "toFormGroups ProfileRequest [] empty_state = Inr NoFormsObject"
    using uninitialized_form_is_undefined [of empty_state ProfileRequest] d by blast
  show ?thesis
    using a r b c e1 e2 e3 own es(1,2) e4 d e5 by blast
qed

subsection \<open>All the forms of a type\<close>

lemma initializeMetadata_LoginRequest_two:
  "initializeMetadata LoginRequest (FormIds [DEFAULT_GROUP, ''secondary'']) empty_state =
     \<lparr>METADATA = [''class LoginRequest'' \<mapsto> [(''LoginRequest'', 0), (''secondary'', 1)]],
      heap = [0 \<mapsto> new_FormGroup, 1 \<mapsto> new_FormGroup], fresh = 2\<rparr>"
  by (simp add: initializeMetadata_def normalizeFormId_def ensure_type_def ensure_form_def
      read_form_def LoginRequest_def empty_state_def Object_prototype_names_def
      DEFAULT_GROUP_def numeral_2_eq_2)

text \<open>
  C5. After \<^verbatim>\<open>@FormGroupTarget([DEFAULT_GROUP, "secondary"])\<close> on \<^verbatim>\<open>LoginRequest\<close>,
  \<^verbatim>\<open>toFormGroups(LoginRequest)\<close> returns \<^verbatim>\<open>METADATA[LoginRequest]\<close>, the object that
  maps the two form ids to their groups, and not an array of the two groups; with a
  non-empty list it returns an array in the order asked for.
\<close>

theorem all_forms_returned_as_object:
  "toFormGroups LoginRequest []
     (initializeMetadata LoginRequest (FormIds [DEFAULT_GROUP, ''secondary'']) empty_state)
     = Inr (FormsObject [(''LoginRequest'', 0), (''secondary'', 1)]) \<and>
   toFormGroups LoginRequest [''secondary'', ''other'', ''LoginRequest'']
     (initializeMetadata LoginRequest (FormIds [DEFAULT_GROUP, ''secondary'']) empty_state)
     = Inr (Array [Ref 1, Undefined, Ref 0])"
  unfolding initializeMetadata_LoginRequest_two
  by (simp add: toFormGroups_def LoginRequest_def read_form_def Object_prototype_names_def)

subsection \<open>Nesting the form of an unregistered class\<close>

text \<open>
  C4. \<^verbatim>\<open>@NestedFormGroup(ProfileRequest)\<close> on a field of \<^verbatim>\<open>LoginRequest\<close>, when no
  decorator has seen \<^verbatim>\<open>ProfileRequest\<close>: the host form is initialised, and the read of
  the source form inside \<^verbatim>\<open>getFormGroups\<close> raises.
\<close>

theorem nesting_unregistered_type_raises:
  "NestedFormGroup ProfileRequest None NoFormId LoginRequest ''profile'' None empty_state
     = Inl TypeError"
  unfolding NestedFormGroup_def Let_def initializeMetadata_LoginRequest_default
  by (simp add: getFormGroups_def normalizeFormId_def LoginRequest_def ProfileRequest_def
      read_form_def NestedFormGroup_body_def DEFAULT_GROUP_def)

subsection \<open>Re-annotating a field\<close>

lemma update_children_group:
  "heap st g = Some gc \<Longrightarrow> ac_kind gc = Group cs \<Longrightarrow>
   update_children f g st = st\<lparr>heap := (heap st)(g \<mapsto> gc\<lparr>ac_kind := Group (f cs)\<rparr>)\<rparr>"
  by (simp add: update_children_def)

lemma the_group_Ref:
  "heap st g = Some gc \<Longrightarrow> ac_kind gc = Group cs \<Longrightarrow> the_group st (Ref g) = Inr (g, cs)"
  by (simp add: the_group_def the_control_def)

lemma map_of_removeControl: "map_of (fg_removeControl (Some q) cs) q = None"
  by (simp add: fg_removeControl_def prop_key_def map_of_eq_None_iff image_iff)

lemma map_of_addControl_absent:
  "map_of cs q = None \<Longrightarrow> map_of (fg_addControl (Some q) a cs) q = Some a"
  by (simp add: fg_addControl_def prop_key_def map_add_def)

lemma addControl_new_group:
  assumes "heap st g = Some gc" and "ac_kind gc = Group cs" and "g \<noteq> fresh st"
  shows "addControl_new g pn c st =
           st\<lparr>heap := (heap st)(fresh st \<mapsto> c,
                                  g \<mapsto> gc\<lparr>ac_kind := Group (fg_addControl pn (fresh st) cs)\<rparr>),
              fresh := Suc (fresh st)\<rparr>"
  using assms by (simp add: addControl_new_def update_children_def)

lemma getFormGroups_single:
  assumes "normalizeFormId type formId = [f]" and "form_address st type f = Some g"
  shows "getFormGroups st type formId = Inr [Ref g]"
  using assms
  by (auto simp: getFormGroups_def form_address_def read_form_def split: option.splits)

lemma has_form_address: "form_address st type f = Some g \<Longrightarrow> has_form st type f"
  by (auto simp: form_address_def has_form_def read_form_def split: option.splits)

lemma type_registered_address: "form_address st type f = Some g \<Longrightarrow> type_registered st type"
  by (auto simp: form_address_def type_registered_def split: option.splits)

lemma initializeMetadata_single_present:
  assumes "normalizeFormId type formId = [f]" and "form_address st type f = Some g"
  shows "initializeMetadata type formId st = st"
  using assms by (simp add: initializeMetadata_noop has_form_address type_registered_address)

lemma registered_form_address:
  "form_address st type f = Some g \<Longrightarrow> registered st (type_key type) f g"
  by (auto simp: form_address_def registered_def split: option.splits)

lemma form_address_below:
  "wf_state st \<Longrightarrow> form_address st type f = Some g \<Longrightarrow> g < fresh st"
  using registered_below registered_form_address by blast

lemma new_FormControl_rules:
  "\<not> is_options vo \<Longrightarrow>
   new_FormControl v vo avs =
     \<lparr>ac_kind = Control v, ac_validators = rules_of vo, ac_asyncValidators = avs\<rparr>"
  by (cases vo) (simp_all add: new_FormControl_def rules_of_def is_options_def)

lemma new_FormControl_kind: "ac_kind (new_FormControl v vo avs) = Control v"
  by (cases vo) (simp_all add: new_FormControl_def)

text \<open>The body of \<^verbatim>\<open>FormControlTarget\<close> on a group that has the field.\<close>

lemma FormControlTarget_body_present:
  assumes grp: "heap st g = Some gc" "ac_kind gc = Group cs"
    and child: "map_of cs q = Some ctrl"
    and below: "g \<noteq> fresh st"
  shows "FormControlTarget_body vo type (Some q) (Ref g) st =
           Inr (st\<lparr>heap := (heap st)
                     (fresh st \<mapsto>
                        new_FormControl
                          (control_value (update_children (fg_removeControl (Some q)) g st) ctrl)
                          vo (control_asyncValidator st ctrl),
                      g \<mapsto> gc\<lparr>ac_kind := Group (fg_removeControl (Some q) cs @ [(q, fresh st)])\<rparr>),
                   fresh := Suc (fresh st)\<rparr>)"
proof -
  let ?st1 = "update_children (fg_removeControl (Some q)) g st"
  let ?gc1 = "gc\<lparr>ac_kind := Group (fg_removeControl (Some q) cs)\<rparr>"
  have st1: "?st1 = st\<lparr>heap := (heap st)(g \<mapsto> ?gc1)\<rparr>"
    using grp by (rule update_children_group)
  have async: "control_asyncValidator ?st1 ctrl = control_asyncValidator st ctrl"
    using grp by (auto simp: st1 control_asyncValidator_def)
  have h1: "heap ?st1 g = Some ?gc1" and k1: "ac_kind ?gc1 = Group (fg_removeControl (Some q) cs)"
    and f1: "fresh ?st1 = fresh st"
    by (simp_all add: st1)
  have add: "addControl_new g (Some q) leaf ?st1 =
      ?st1\<lparr>heap := (heap ?st1)(fresh ?st1 \<mapsto> leaf,
               g \<mapsto> ?gc1\<lparr>ac_kind := Group (fg_addControl (Some q) (fresh ?st1)
                                            (fg_removeControl (Some q) cs))\<rparr>),
            fresh := Suc (fresh ?st1)\<rparr>" for leaf
    by (rule addControl_new_group [OF h1 k1]) (simp add: f1 below)
  have children: "fg_addControl (Some q) a (fg_removeControl (Some q) cs) =
                    fg_removeControl (Some q) cs @ [(q, a)]" for a
    using map_of_removeControl [of q cs] by (simp add: fg_addControl_def prop_key_def)
  have "FormControlTarget_body vo type (Some q) (Ref g) st =
          Inr (addControl_new g (Some q)
                 (new_FormControl (control_value ?st1 ctrl) vo (control_asyncValidator ?st1 ctrl))
                 ?st1)"
    using grp child by (simp add: FormControlTarget_body_def the_group_Ref fg_get_def Let_def)
  also have "\<dots> = Inr (st\<lparr>heap := (heap st)
                     (fresh st \<mapsto> new_FormControl (control_value ?st1 ctrl) vo (control_asyncValidator st ctrl),
                      g \<mapsto> gc\<lparr>ac_kind := Group (fg_removeControl (Some q) cs @ [(q, fresh st)])\<rparr>),
                   fresh := Suc (fresh st)\<rparr>)"
    unfolding add async children by (simp add: st1 below fun_upd_twist)
  finally show ?thesis .
qed

lemma FormControlTarget_body_absent:
  assumes grp: "heap st g = Some gc" "ac_kind gc = Group cs"
    and child: "map_of cs q = None"
    and below: "g \<noteq> fresh st"
  shows "FormControlTarget_body vo type (Some q) (Ref g) st =
           Inr (st\<lparr>heap := (heap st)
                     (fresh st \<mapsto> new_FormControl (read_property type (Some q)) vo [],
                      g \<mapsto> gc\<lparr>ac_kind := Group (cs @ [(q, fresh st)])\<rparr>),
                   fresh := Suc (fresh st)\<rparr>)"
  using grp child below
  by (simp add: FormControlTarget_body_def the_group_Ref fg_get_def addControl_new_group
      fg_addControl_def prop_key_def)

lemma FormControlTarget_single:
  assumes "normalizeFormId type formId = [f]"
    and "form_address (initializeMetadata type formId st) type f = Some g"
    and "acting_propName type propName descriptor = pn"
  shows "FormControlTarget vo formId type propName descriptor st =
           FormControlTarget_body vo type pn (Ref g) (initializeMetadata type formId st)"
  using assms
  by (simp add: FormControlTarget_def Let_def getFormGroups_single split: sum.splits)

text \<open>
  The rules given as one function, an array of them or \<^verbatim>\<open>null\<close>. Let the form \<open>f\<close> of a
  type hold a control for the field \<open>q\<close> whose asynchronous rule is set. \<^verbatim>\<open>FormControlTarget\<close>
  for that field and that form alone, with such rules, returns; the field is then held by
  a control stored at an address that was unused, whose synchronous rules are the given
  ones and whose asynchronous rule is that of the previous control.
\<close>

lemma async_rule_carried_over:
  assumes wf: "wf_state st"
    and target: "normalizeFormId type formId = [f]"
    and tree: "form_address st type f = Some g"
    and grp: "heap st g = Some gc" "ac_kind gc = Group cs"
    and name: "acting_propName type propName descriptor = Some q"
    and child: "map_of cs q = Some ctrl" "heap st ctrl = Some c"
    and async: "ac_asyncValidators c \<noteq> []"
    and rules: "\<not> is_options vo"
  shows "\<exists>st' gc' cs' leaf v.
           FormControlTarget vo formId type propName descriptor st = Inr st' \<and>
           form_address st' type f = Some g \<and>
           heap st' g = Some gc' \<and> ac_kind gc' = Group cs' \<and>
           map_of cs' q = Some (fresh st) \<and>
           fresh st \<noteq> ctrl \<and> heap st (fresh st) = None \<and>
           heap st' (fresh st) = Some leaf \<and>
           ac_kind leaf = Control v \<and>
           ac_validators leaf = rules_of vo \<and>
           ac_asyncValidators leaf = ac_asyncValidators c \<and>
           ac_asyncValidators leaf \<noteq> []"
proof -
  have init: "initializeMetadata type formId st = st"
    using target tree by (rule initializeMetadata_single_present)
  have below: "g \<noteq> fresh st"
    using form_address_below [OF wf tree] by simp
  have ctrl_below: "ctrl < fresh st"
    using wf_state_below [OF wf, of ctrl] child by simp
  have unused: "heap st (fresh st) = None"
    using wf_state_below [OF wf, of "fresh st"] by (cases "heap st (fresh st)") simp_all
  have run: "FormControlTarget vo formId type propName descriptor st =
               FormControlTarget_body vo type (Some q) (Ref g) st"
    using FormControlTarget_single [OF target _ name, of st g vo] tree by (simp add: init)
  show ?thesis
    unfolding run FormControlTarget_body_present [OF grp child(1) below]
    using tree below ctrl_below unused async rules child(2)
    by (simp add: form_address_def new_FormControl_rules map_add_def map_of_removeControl
        control_asyncValidator_def)
qed

lemma login_async_state_reached:
  "FormControlAsyncValidators (One 7) NoFormId LoginRequest ''username'' None empty_state
     = Inr (login_async_state
              \<lparr>heap := (heap login_async_state)
                 (1 \<mapsto> \<lparr>ac_kind = Control (JStr []), ac_validators = [],
                           ac_asyncValidators = [7]\<rparr>)\<rparr>)"
  unfolding FormControlAsyncValidators_def Let_def initializeMetadata_LoginRequest_default
  by (simp add: getFormGroups_def normalizeFormId_def LoginRequest_def read_form_def
      FormControlAsyncValidators_body_def the_group_def the_control_def new_FormGroup_def
      fg_get_def acting_propName_def addControl_new_def update_children_def fg_addControl_def
      prop_key_def new_FormControl_def read_property_def login_async_state_def
      DEFAULT_GROUP_def fun_upd_twist)

lemma wf_login_async_state: "wf_state login_async_state"
  unfolding wf_state_def
proof (intro conjI allI impI)
  fix a
  assume "heap login_async_state a \<noteq> None"
  then show "a < fresh login_async_state"
    by (auto simp: login_async_state_def split: if_splits)
next
  fix k f a
  assume "registered login_async_state k f a"
  then show "is_group login_async_state a"
    by (auto simp: registered_def is_group_def login_async_state_def split: if_splits)
next
  fix k f k' f' a
  assume "registered login_async_state k f a" and "registered login_async_state k' f' a"
  then show "k = k'"
    by (auto simp: registered_def login_async_state_def split: if_splits)
next
  fix k f k' f' a
  assume "registered login_async_state k f a" and "registered login_async_state k' f' a"
  then show "f = f'"
    by (auto simp: registered_def login_async_state_def split: if_splits)
qed

lemma async_rule_carried_over_example:
  "wf_state login_async_state \<and>
   normalizeFormId LoginRequest NoFormId = [''LoginRequest''] \<and>
   form_address login_async_state LoginRequest ''LoginRequest'' = Some 0 \<and>
   heap login_async_state 0 =
     Some \<lparr>ac_kind = Group [(''username'', 1)], ac_validators = [], ac_asyncValidators = []\<rparr> \<and>
   acting_propName LoginRequest ''username'' None = Some ''username'' \<and>
   heap login_async_state 1 =
     Some \<lparr>ac_kind = Control (JStr ''typed''), ac_validators = [], ac_asyncValidators = [7]\<rparr> \<and>
   \<not> is_options (Rules (One 3)) \<and>
   (\<exists>st' gc' cs' leaf v.
      FormControlTarget (Rules (One 3)) NoFormId LoginRequest ''username'' None
        login_async_state = Inr st' \<and>
      form_address st' LoginRequest ''LoginRequest'' = Some 0 \<and>
      heap st' 0 = Some gc' \<and> ac_kind gc' = Group cs' \<and>
      map_of cs' ''username'' = Some 2 \<and>
      heap st' 2 = Some leaf \<and>
      ac_kind leaf = Control v \<and>
      ac_validators leaf = [3] \<and>
      ac_asyncValidators leaf = [7])"
proof -
  let ?gc = "\<lparr>ac_kind = Group [(''username'', 1)], ac_validators = [], ac_asyncValidators = []\<rparr>"
  let ?c = "\<lparr>ac_kind = Control (JStr ''typed''), ac_validators = [], ac_asyncValidators = [7::nat]\<rparr>"
  have target: "normalizeFormId LoginRequest NoFormId = [''LoginRequest'']"
    by (simp add: normalizeFormId_def LoginRequest_def)
  have tree: "form_address login_async_state LoginRequest ''LoginRequest'' = Some 0"
    by (simp add: form_address_def login_async_state_def LoginRequest_def)
  have grp: "heap login_async_state 0 = Some ?gc" "ac_kind ?gc = Group [(''username'', 1)]"
    by (simp_all add: login_async_state_def)
  have name: "acting_propName LoginRequest ''username'' None = Some ''username''"
    by (simp add: acting_propName_def)
  have child: "map_of [(''username'', 1::nat)] ''username'' = Some 1"
    "heap login_async_state 1 = Some ?c"
    by (simp_all add: login_async_state_def)
  have async: "ac_asyncValidators ?c \<noteq> []" by simp
  have rules: "\<not> is_options (Rules (One 3))" by (simp add: is_options_def)
  have fresh2: "fresh login_async_state = 2" by (simp add: login_async_state_def)
  have r3: "rules_of (Rules (One 3)) = [3]" by (simp add: rules_of_def)
  show ?thesis
    using async_rule_carried_over [OF wf_login_async_state target tree grp name child async rules]
      wf_login_async_state target tree grp(1) name child(2) rules
    by (simp add: fresh2 r3) blast
qed

text \<open>
  C1. The rules given in an options object, the form that the documentation shows as
  \<^verbatim>\<open>@FormControlTarget({updateOn: 'submit', validators: Validators.required})\<close>. The
  control of \<^verbatim>\<open>username\<close> in the default form of \<^verbatim>\<open>LoginRequest\<close> has the asynchronous
  rule 7 and holds \<^verbatim>\<open>'typed'\<close>. \<^verbatim>\<open>FormControlTarget({validators: v3})\<close> for that field
  returns, and the control that replaces it holds the same value, has the synchronous
  rule 3 and has no asynchronous rule: the previous rule is passed as the third argument
  of \<^verbatim>\<open>new FormControl\<close>, which does not look at it when the second is an options object.
\<close>

theorem options_object_drops_async_rule:
  "\<exists>st'. FormControlTarget
           (Options \<lparr>opt_validators = Some (One 3), opt_asyncValidators = None\<rparr>)
           NoFormId LoginRequest ''username'' None login_async_state = Inr st' \<and>
         control_asyncValidator login_async_state 1 = [7] \<and>
         get_field login_async_state 0 ''username'' = Some 1 \<and>
         get_field st' 0 ''username'' = Some 2 \<and>
         heap st' 2 = Some \<lparr>ac_kind = Control (JStr ''typed''), ac_validators = [3],
                             ac_asyncValidators = []\<rparr>"
  by (simp add: FormControlTarget_def FormControlTarget_body_def initializeMetadata_def
      normalizeFormId_def ensure_type_def ensure_form_def read_form_def getFormGroups_def
      the_group_def the_control_def update_children_def fg_addControl_def fg_removeControl_def
      prop_key_def acting_propName_def new_FormControl_def fg_get_def addControl_new_def
      control_value_def control_asyncValidator_def get_field_def
      LoginRequest_def login_async_state_def Object_prototype_names_def DEFAULT_GROUP_def)

subsection \<open>What a decorator leaves alone\<close>

lemma touches_only_refl: "touches_only A st st"
  by (simp add: touches_only_def)

lemma touches_only_trans:
  assumes "touches_only A st st1" and "touches_only B st1 st2"
  shows "touches_only (A \<union> B) st st2"
  unfolding touches_only_def
proof (intro conjI allI impI)
  show "METADATA st2 = METADATA st"
    using assms by (simp add: touches_only_def)
  show "fresh st \<le> fresh st2"
    using assms by (simp add: touches_only_def)
next
  fix a
  assume "a < fresh st" and "a \<notin> A \<union> B"
  moreover have "fresh st \<le> fresh st1"
    using assms(1) by (simp add: touches_only_def)
  ultimately have "heap st1 a = heap st a" and "heap st2 a = heap st1 a"
    using assms by (simp_all add: touches_only_def)
  then show "heap st2 a = heap st a" by simp
next
  fix a
  assume "is_group st a"
  then show "is_group st2 a"
    using assms by (simp add: touches_only_def)
next
  fix a
  assume a: "heap st2 a \<noteq> None"
  have 1: "heap st1 a \<noteq> None \<or> fresh st1 \<le> a \<and> a < fresh st2"
    using assms(2) a unfolding touches_only_def by blast
  have 2: "heap st1 a \<noteq> None \<Longrightarrow> heap st a \<noteq> None \<or> fresh st \<le> a \<and> a < fresh st1"
    using assms(1) unfolding touches_only_def by blast
  have 3: "fresh st \<le> fresh st1" "fresh st1 \<le> fresh st2"
    using assms by (simp_all add: touches_only_def)
  show "heap st a \<noteq> None \<or> fresh st \<le> a \<and> a < fresh st2"
    using 1 2 3 by force
qed

lemma touches_only_mono: "touches_only A st st' \<Longrightarrow> A \<subseteq> B \<Longrightarrow> touches_only B st st'"
  unfolding touches_only_def by blast

lemma wf_state_touches_only:
  assumes "wf_state st" and "touches_only A st st'"
  shows "wf_state st'"
proof (rule wf_stateI)
  fix a
  assume "heap st' a \<noteq> None"
  then have "heap st a \<noteq> None \<or> fresh st \<le> a \<and> a < fresh st'"
    using assms(2) unfolding touches_only_def by blast
  moreover have "fresh st \<le> fresh st'"
    using assms(2) by (simp add: touches_only_def)
  ultimately show "a < fresh st'"
    using wf_state_below [OF assms(1), of a] by force
next
  have same: "registered st' k f a \<longleftrightarrow> registered st k f a" for k f a
    using assms(2) by (simp add: registered_def touches_only_def)
  {
    fix k f a
    assume "registered st' k f a"
    then have "is_group st a"
      using wf_state_group [OF assms(1)] same by blast
    then show "is_group st' a"
      using assms(2) by (simp add: touches_only_def)
  }
  {
    fix k f k' f' a
    assume "registered st' k f a" and "registered st' k' f' a"
    then show "k = k' \<and> f = f'"
      using wf_state_inj [OF assms(1)] same by blast
  }
qed

lemma touches_only_store:
  assumes "heap st a = Some c" and "ac_kind c' = ac_kind c"
  shows "touches_only {a} st (st\<lparr>heap := (heap st)(a \<mapsto> c')\<rparr>)"
  using assms by (auto simp: touches_only_def is_group_def)

lemma touches_only_update_children: "touches_only {g} st (update_children f g st)"
  by (auto simp: update_children_def touches_only_def is_group_def
      split: option.splits control_kind.splits)

lemma touches_only_alloc:
  assumes "heap st (fresh st) = None"
  shows "touches_only {} st (st\<lparr>heap := (heap st)(fresh st \<mapsto> c), fresh := Suc (fresh st)\<rparr>)"
  using assms by (auto simp: touches_only_def is_group_def)

lemma wf_state_unused: "wf_state st \<Longrightarrow> heap st (fresh st) = None"
  using wf_state_below [of st "fresh st"] by (cases "heap st (fresh st)") simp_all

lemma touches_only_addControl_new:
  assumes "wf_state st"
  shows "touches_only {g} st (addControl_new g pn c st)"
proof -
  have "touches_only ({} \<union> {g}) st (addControl_new g pn c st)"
    unfolding addControl_new_def
    by (rule touches_only_trans [OF touches_only_alloc touches_only_update_children])
       (rule wf_state_unused [OF assms])
  then show ?thesis by simp
qed

lemma entry_addrs_Cons: "entry_addrs (x # xs) = entry_addrs [x] \<union> entry_addrs xs"
  by (auto simp: entry_addrs_def)

lemma the_control_Inr: "the_control st e = Inr (a, c) \<Longrightarrow> e = Ref a \<and> heap st a = Some c"
  by (auto simp: the_control_def split: entry.splits option.splits)

lemma the_group_Inr:
  "the_group st e = Inr (g, cs) \<Longrightarrow>
   e = Ref g \<and> (\<exists>gc. heap st g = Some gc \<and> ac_kind gc = Group cs)"
  by (auto simp: the_group_def split: sum.splits control_kind.splits dest: the_control_Inr)

lemma touches_only_addValidators:
  assumes "addValidators vs e st = Inr st'"
  shows "touches_only (entry_addrs [e]) st st'"
proof -
  obtain a c where ac: "the_control st e = Inr (a, c)"
    and st': "st' = st\<lparr>heap := (heap st)(a \<mapsto> ac_addValidators vs c)\<rparr>"
    using assms by (auto simp: addValidators_def split: sum.splits)
  have "e = Ref a" "heap st a = Some c"
    using the_control_Inr [OF ac] by simp_all
  then show ?thesis
    unfolding st' by (simp add: entry_addrs_def touches_only_store ac_addValidators_def)
qed

lemma touches_only_addAsyncValidators:
  assumes "addAsyncValidators vs e st = Inr st'"
  shows "touches_only (entry_addrs [e]) st st'"
proof -
  obtain a c where ac: "the_control st e = Inr (a, c)"
    and st': "st' = st\<lparr>heap := (heap st)(a \<mapsto> ac_addAsyncValidators vs c)\<rparr>"
    using assms by (auto simp: addAsyncValidators_def split: sum.splits)
  have "e = Ref a" "heap st a = Some c"
    using the_control_Inr [OF ac] by simp_all
  then show ?thesis
    unfolding st' by (simp add: entry_addrs_def touches_only_store ac_addAsyncValidators_def)
qed

lemma touches_only_FormControlTarget_body:
  assumes wf: "wf_state st" and run: "FormControlTarget_body vo type pn e st = Inr st'"
  shows "touches_only (entry_addrs [e]) st st'"
proof -
  obtain g cs where g: "the_group st e = Inr (g, cs)"
    using run by (auto simp: FormControlTarget_body_def split: sum.splits)
  have e: "entry_addrs [e] = {g}"
    using the_group_Inr [OF g] by (simp add: entry_addrs_def)
  show ?thesis
  proof (cases "fg_get cs pn")
    case None
    then have "st' = addControl_new g pn (new_FormControl (read_property type pn) vo []) st"
      using run g by (simp add: FormControlTarget_body_def)
    then show ?thesis
      unfolding e using touches_only_addControl_new [OF wf] by simp
  next
    case (Some ctrl)
    let ?st1 = "update_children (fg_removeControl pn) g st"
    have st': "st' = addControl_new g pn
                 (new_FormControl (control_value ?st1 ctrl) vo (control_asyncValidator ?st1 ctrl))
                 ?st1"
      using run g Some by (simp add: FormControlTarget_body_def Let_def)
    have 1: "touches_only {g} st ?st1"
      by (rule touches_only_update_children)
    have "touches_only ({g} \<union> {g}) st st'"
      unfolding st'
      by (rule touches_only_trans [OF 1 touches_only_addControl_new])
         (rule wf_state_touches_only [OF wf 1])
    then show ?thesis
      unfolding e by simp
  qed
qed

lemma forEach_touches_only:
  assumes step: "\<And>e st st'. wf_state st \<Longrightarrow> body e st = Inr st' \<Longrightarrow>
                   touches_only (entry_addrs [e]) st st'"
    and wf: "wf_state st"
    and run: "forEach body es st = Inr st'"
  shows "touches_only (entry_addrs es) st st'"
  using wf run
proof (induction es arbitrary: st)
  case Nil
  then show ?case by (simp add: touches_only_refl)
next
  case (Cons x xs)
  obtain st1 where x: "body x st = Inr st1" and rest: "forEach body xs st1 = Inr st'"
    using Cons.prems(2) by (auto split: sum.splits)
  have 1: "touches_only (entry_addrs [x]) st st1"
    using Cons.prems(1) x by (rule step)
  have "wf_state st1"
    using Cons.prems(1) 1 by (rule wf_state_touches_only)
  then have 2: "touches_only (entry_addrs xs) st1 st'"
    using rest by (rule Cons.IH)
  show ?case
    unfolding entry_addrs_Cons [of x xs] using 1 2 by (rule touches_only_trans)
qed

lemma form_address_ensure_form:
  "m \<noteq> f \<Longrightarrow> form_address (ensure_form type st f) type m = form_address st type m"
  by (auto simp: form_address_def ensure_form_def map_add_def split: option.splits)

lemma form_address_ensure_forms:
  "m \<notin> set fs \<Longrightarrow> form_address (foldl (ensure_form type) st fs) type m = form_address st type m"
  by (induction fs arbitrary: st) (simp_all add: form_address_ensure_form)

lemma form_address_ensure_type: "form_address (ensure_type type st) type m = form_address st type m"
  by (auto simp: form_address_def ensure_type_def split: option.splits)

lemma form_address_initializeMetadata:
  "m \<notin> set (normalizeFormId type formId) \<Longrightarrow>
   form_address (initializeMetadata type formId st) type m = form_address st type m"
  by (simp add: initializeMetadata_def form_address_ensure_forms form_address_ensure_type)

lemma getFormGroups_addrs:
  assumes "getFormGroups st type formId = Inr es" and "a \<in> entry_addrs es"
  shows "\<exists>f \<in> set (normalizeFormId type formId). form_address st type f = Some a"
proof -
  let ?fs = "normalizeFormId type formId"
  have nonempty: "?fs \<noteq> []"
    using assms by (auto simp: getFormGroups_def Let_def entry_addrs_def split: if_splits)
  then obtain forms where forms: "METADATA st (type_key type) = Some forms"
    and es: "es = map (read_form forms) ?fs"
    using assms(1) by (auto simp: getFormGroups_def Let_def split: option.splits)
  obtain f where f: "f \<in> set ?fs" "read_form forms f = Ref a"
    using assms(2) unfolding es entry_addrs_def by auto
  have "map_of forms f = Some a"
    using f(2) by (auto simp: read_form_def split: option.splits if_splits)
  then show ?thesis
    using f(1) forms by (auto simp: form_address_def)
qed

text \<open>What a decorator of the shape "initialise, read the groups, run the body on each"
  leaves alone.\<close>

lemma decorator_frame:
  assumes step: "\<And>e st st'. wf_state st \<Longrightarrow> body e st = Inr st' \<Longrightarrow>
                   touches_only (entry_addrs [e]) st st'"
    and wf: "wf_state st"
    and groups: "getFormGroups (initializeMetadata type formId st) type formId = Inr es"
    and run: "forEach body es (initializeMetadata type formId st) = Inr st'"
  shows "wf_state st'"
    and "m \<notin> set (normalizeFormId type formId) \<Longrightarrow>
         form_address st' type m = form_address st type m"
    and "a < fresh st \<Longrightarrow>
         \<forall>f \<in> set (normalizeFormId type formId). form_address st' type f \<noteq> Some a \<Longrightarrow>
         heap st' a = heap st a"
    and "a < fresh st \<Longrightarrow> \<not> is_group st a \<Longrightarrow> heap st' a = heap st a"
proof -
  let ?st1 = "initializeMetadata type formId st"
  have wf1: "wf_state ?st1"
    using wf by (rule wf_state_initializeMetadata)
  have loop: "touches_only (entry_addrs es) ?st1 st'"
    using step wf1 run by (rule forEach_touches_only)
  show "wf_state st'"
    using wf1 loop by (rule wf_state_touches_only)
  have same: "form_address st' type f = form_address ?st1 type f" for f
    using loop by (simp add: form_address_def touches_only_def)
  show "form_address st' type m = form_address st type m"
    if "m \<notin> set (normalizeFormId type formId)"
    using that by (simp add: same form_address_initializeMetadata)
  show "heap st' a = heap st a"
    if a: "a < fresh st"
      and no: "\<forall>f \<in> set (normalizeFormId type formId). form_address st' type f \<noteq> Some a"
  proof -
    have "a \<notin> entry_addrs es"
      using getFormGroups_addrs [OF groups, of a] no same by auto
    moreover have "a < fresh ?st1"
      using a initializeMetadata_fresh [of st type formId] by simp
    ultimately have "heap st' a = heap ?st1 a"
      using loop by (simp add: touches_only_def)
    then show ?thesis
      using a by (simp add: initializeMetadata_heap_below)
  qed
  show "heap st' a = heap st a" if a: "a < fresh st" and leaf: "\<not> is_group st a"
  proof -
    have cell: "heap ?st1 a = heap st a"
      using a by (simp add: initializeMetadata_heap_below)
    have "a \<notin> entry_addrs es"
    proof
      assume "a \<in> entry_addrs es"
      then obtain f where "form_address ?st1 type f = Some a"
        using getFormGroups_addrs [OF groups] by blast
      then have "is_group ?st1 a"
        using wf_state_group [OF wf1] registered_form_address by blast
      then show False
        using leaf by (simp add: is_group_def cell)
    qed
    moreover have "a < fresh ?st1"
      using a initializeMetadata_fresh [of st type formId] by simp
    ultimately have "heap st' a = heap ?st1 a"
      using loop by (simp add: touches_only_def)
    then show ?thesis
      by (simp add: cell)
  qed
qed

subsection \<open>Forms of one type are independent\<close>

lemma control_value_leaf:
  "heap st a = Some c \<Longrightarrow> ac_kind c = Control v \<Longrightarrow> control_value st a = v"
  by (simp add: control_value_def)

lemma registered_ensure_form_other:
  assumes "k \<noteq> type_key type \<or> m \<noteq> f"
  shows "registered (ensure_form type st f) k m a \<longleftrightarrow> registered st k m a"
proof -
  consider "ensure_form type st f = st"
    | forms where "METADATA st (type_key type) = Some forms" "map_of forms f = None"
      "ensure_form type st f =
        st\<lparr>METADATA := (METADATA st)(type_key type \<mapsto> forms @ [(f, fresh st)]),
           heap := (heap st)(fresh st \<mapsto> new_FormGroup),
           fresh := Suc (fresh st)\<rparr>"
    using ensure_form_cases by blast
  then show ?thesis
  proof cases
    case 1
    then show ?thesis by simp
  next
    case 2
    show ?thesis
      unfolding 2(3) registered_after_store [OF 2(1) 2(2)] using assms by blast
  qed
qed

lemma registered_ensure_forms_other:
  "k \<noteq> type_key type \<or> m \<notin> set fs \<Longrightarrow>
   registered (foldl (ensure_form type) st fs) k m a \<longleftrightarrow> registered st k m a"
proof (induction fs arbitrary: st)
  case Nil
  then show ?case by simp
next
  case (Cons x xs)
  have "registered (foldl (ensure_form type) (ensure_form type st x) xs) k m a
          \<longleftrightarrow> registered (ensure_form type st x) k m a"
    using Cons.prems by (intro Cons.IH) auto
  also have "\<dots> \<longleftrightarrow> registered st k m a"
    using Cons.prems by (intro registered_ensure_form_other) auto
  finally show ?case by simp
qed

lemma registered_initializeMetadata_other:
  "k \<noteq> type_key type \<or> m \<notin> set (normalizeFormId type formId) \<Longrightarrow>
   registered (initializeMetadata type formId st) k m a \<longleftrightarrow> registered st k m a"
  by (simp add: initializeMetadata_def registered_ensure_forms_other registered_ensure_type)

lemma decorator_leaves_alone:
  assumes step: "\<And>e st st'. wf_state st \<Longrightarrow> body e st = Inr st' \<Longrightarrow>
                   touches_only (entry_addrs [e]) st st'"
    and wf: "wf_state st"
    and other: "k \<noteq> type_key type \<or> m \<notin> set (normalizeFormId type formId)"
    and run: "(case getFormGroups (initializeMetadata type formId st) type formId of
                 Inl e \<Rightarrow> Inl e
               | Inr es \<Rightarrow> forEach body es (initializeMetadata type formId st)) = Inr st'"
  shows "leaves_alone k m st st'"
proof -
  let ?st1 = "initializeMetadata type formId st"
  obtain es where groups: "getFormGroups ?st1 type formId = Inr es"
    and loop: "forEach body es ?st1 = Inr st'"
    using run by (auto split: sum.splits)
  have wf1: "wf_state ?st1"
    using wf by (rule wf_state_initializeMetadata)
  have wf': "wf_state st'"
    by (rule decorator_frame(1) [of body, OF step wf groups loop])
  have "touches_only (entry_addrs es) ?st1 st'"
    using step wf1 loop by (rule forEach_touches_only)
  then have meta: "METADATA st' = METADATA ?st1"
    by (simp add: touches_only_def)
  have same: "registered st' k m a \<longleftrightarrow> registered st k m a" for a
    using registered_initializeMetadata_other [OF other, of st a]
    by (simp add: registered_def meta)
  have tree: "heap st' a = heap st a" if a: "registered st k m a" for a
  proof (rule decorator_frame(3) [of body, OF step wf groups loop])
    show "a < fresh st"
      using wf a by (rule registered_below)
    show "\<forall>f \<in> set (normalizeFormId type formId). form_address st' type f \<noteq> Some a"
    proof
      fix f
      assume f: "f \<in> set (normalizeFormId type formId)"
      show "form_address st' type f \<noteq> Some a"
      proof
        assume "form_address st' type f = Some a"
        then have "registered st' (type_key type) f a"
          by (rule registered_form_address)
        moreover have "registered st' k m a"
          using a same by simp
        ultimately have "type_key type = k \<and> f = m"
          by (rule wf_state_inj [OF wf'])
        then show False
          using f other by auto
      qed
    qed
  qed
  have leaves: "heap st' c = Some leaf" if "heap st c = Some leaf" "ac_kind leaf = Control v"
    for c leaf v
  proof -
    have 1: "c < fresh st"
      using wf_state_below [OF wf, of c] that by simp
    have 2: "\<not> is_group st c"
      using that by (simp add: is_group_def)
    have "heap st' c = heap st c"
      using decorator_frame(4) [of body, OF step wf groups loop 1 2] .
    then show ?thesis
      using that by simp
  qed
  show ?thesis
    unfolding leaves_alone_def using same tree leaves by blast
qed

text \<open>
  C7. A class-level \<^verbatim>\<open>FormGroupValidators\<close> and a field-level \<^verbatim>\<open>FormControlTarget\<close> leave
  alone every form that they do not target, that is every form of another class and every
  form of the class that their form id does not name: after the decorator has returned,
  such a form is registered at the address it had, the group stored there has the rules
  and the children it had, and no \<^verbatim>\<open>FormControl\<close> that existed has changed. With the form
  id \<open>V\<close> and \<open>m\<close> the name of the type, a rule for \<open>V\<close> does not reach the default form; with
  no form id and \<open>m = V\<close>, a rule for the default form does not reach \<open>V\<close>.
\<close>

theorem variant_isolation:
  assumes wf: "wf_state st"
    and other: "k \<noteq> type_key type \<or> m \<notin> set (normalizeFormId type formId)"
  shows "(FormGroupValidators vs formId type st = Inr st' \<longrightarrow> leaves_alone k m st st') \<and>
         (FormControlTarget vo formId type propName descriptor st = Inr st'' \<longrightarrow>
            leaves_alone k m st st'')"
proof (intro conjI impI)
  assume "FormGroupValidators vs formId type st = Inr st'"
  then have run: "(case getFormGroups (initializeMetadata type formId st) type formId of
                     Inl e \<Rightarrow> Inl e
                   | Inr es \<Rightarrow> forEach (addValidators vs) es (initializeMetadata type formId st))
                  = Inr st'"
    by (simp add: FormGroupValidators_def Let_def)
  show "leaves_alone k m st st'"
    using touches_only_addValidators wf other run by (rule decorator_leaves_alone)
next
  assume "FormControlTarget vo formId type propName descriptor st = Inr st''"
  then have run: "(case getFormGroups (initializeMetadata type formId st) type formId of
                     Inl e \<Rightarrow> Inl e
                   | Inr es \<Rightarrow>
                       forEach (FormControlTarget_body vo type
                                  (acting_propName type propName descriptor)) es
                         (initializeMetadata type formId st))
                  = Inr st''"
    by (simp add: FormControlTarget_def Let_def)
  show "leaves_alone k m st st''"
    using touches_only_FormControlTarget_body wf other run by (rule decorator_leaves_alone)
qed

lemma wf_login_two_forms_state: "wf_state login_two_forms_state"
  unfolding wf_state_def
proof (intro conjI allI impI)
  fix a
  assume "heap login_two_forms_state a \<noteq> None"
  then show "a < fresh login_two_forms_state"
    by (auto simp: login_two_forms_state_def split: if_splits)
next
  fix k f a
  assume "registered login_two_forms_state k f a"
  then show "is_group login_two_forms_state a"
    by (auto simp: registered_def is_group_def login_two_forms_state_def split: if_splits)
next
  fix k f k' f' a
  assume "registered login_two_forms_state k f a" and "registered login_two_forms_state k' f' a"
  then show "k = k'"
    by (auto simp: registered_def login_two_forms_state_def split: if_splits)
next
  fix k f k' f' a
  assume "registered login_two_forms_state k f a" and "registered login_two_forms_state k' f' a"
  then show "f = f'"
    by (auto simp: registered_def login_two_forms_state_def split: if_splits)
qed

text \<open>The decorators build this registry.\<close>

lemma login_two_forms_state_reached:
  "\<exists>st1. FormControlTarget (Rules (One 10)) NoFormId LoginRequest ''username'' None
           (initializeMetadata LoginRequest (FormIds [DEFAULT_GROUP, ''secondary'']) empty_state)
           = Inr st1 \<and>
         FormControlTarget NoRules (FormId ''secondary'') LoginRequest ''username'' None st1
           = Inr login_two_forms_state"
  unfolding initializeMetadata_LoginRequest_two
  by (auto simp add: FormControlTarget_def FormControlTarget_body_def initializeMetadata_def
      normalizeFormId_def ensure_type_def ensure_form_def read_form_def getFormGroups_def
      the_group_def the_control_def update_children_def fg_addControl_def prop_key_def
      acting_propName_def new_FormGroup_def new_FormControl_def fg_get_def addControl_new_def
      read_property_def LoginRequest_def login_two_forms_state_def
      Object_prototype_names_def DEFAULT_GROUP_def numeral_2_eq_2 numeral_3_eq_3 fun_upd_twist
      eval_nat_numeral)

lemma login_two_forms_initialized:
  "initializeMetadata LoginRequest (FormId ''secondary'') login_two_forms_state
     = login_two_forms_state"
  "initializeMetadata LoginRequest NoFormId login_two_forms_state = login_two_forms_state"
proof -
  have 1: "normalizeFormId LoginRequest (FormId ''secondary'') = [''secondary'']"
    and 2: "normalizeFormId LoginRequest NoFormId = [''LoginRequest'']"
    by (simp_all add: normalizeFormId_def LoginRequest_def DEFAULT_GROUP_def)
  have 3: "form_address login_two_forms_state LoginRequest ''secondary'' = Some 1"
    and 4: "form_address login_two_forms_state LoginRequest ''LoginRequest'' = Some 0"
    by (simp_all add: form_address_def login_two_forms_state_def LoginRequest_def)
  show "initializeMetadata LoginRequest (FormId ''secondary'') login_two_forms_state
          = login_two_forms_state"
    using 1 3 by (rule initializeMetadata_single_present)
  show "initializeMetadata LoginRequest NoFormId login_two_forms_state = login_two_forms_state"
    using 2 4 by (rule initializeMetadata_single_present)
qed

lemma FormGroupValidators_secondary:
  "FormGroupValidators (One 5) (FormId ''secondary'') LoginRequest login_two_forms_state =
     Inr (login_two_forms_state
            \<lparr>heap := (heap login_two_forms_state)
               (1 \<mapsto> \<lparr>ac_kind = Group [(''username'', 3)], ac_validators = [5],
                         ac_asyncValidators = []\<rparr>)\<rparr>)"
  unfolding FormGroupValidators_def Let_def login_two_forms_initialized
  by (simp add: getFormGroups_def normalizeFormId_def LoginRequest_def read_form_def
      addValidators_def the_control_def ac_addValidators_def add_missing_def
      login_two_forms_state_def DEFAULT_GROUP_def)

lemma FormControlTarget_default:
  "FormControlTarget (Rules (One 6)) NoFormId LoginRequest ''username'' None
     login_two_forms_state =
     Inr (login_two_forms_state
            \<lparr>heap := (heap login_two_forms_state)
               (4 \<mapsto> \<lparr>ac_kind = Control (JStr []), ac_validators = [6],
                         ac_asyncValidators = []\<rparr>,
                0 \<mapsto> \<lparr>ac_kind = Group [(''username'', 4)], ac_validators = [],
                         ac_asyncValidators = []\<rparr>),
             fresh := 5\<rparr>)"
proof -
  have target: "normalizeFormId LoginRequest NoFormId = [''LoginRequest'']"
    by (simp add: normalizeFormId_def LoginRequest_def)
  have tree: "form_address (initializeMetadata LoginRequest NoFormId login_two_forms_state)
                LoginRequest ''LoginRequest'' = Some 0"
    unfolding login_two_forms_initialized
    by (simp add: form_address_def login_two_forms_state_def LoginRequest_def)
  have name: "acting_propName LoginRequest ''username'' None = Some ''username''"
    by (simp add: acting_propName_def)
  have grp: "heap login_two_forms_state 0 =
               Some \<lparr>ac_kind = Group [(''username'', 2)], ac_validators = [],
                     ac_asyncValidators = []\<rparr>"
    by (simp add: login_two_forms_state_def)
  have below: "0 \<noteq> fresh login_two_forms_state"
    by (simp add: login_two_forms_state_def)
  have removed: "update_children (fg_removeControl (Some ''username'')) 0 login_two_forms_state =
     login_two_forms_state\<lparr>heap := (heap login_two_forms_state)
        (0 \<mapsto> \<lparr>ac_kind = Group [], ac_validators = [], ac_asyncValidators = []\<rparr>)\<rparr>"
    using grp by (simp add: update_children_def fg_removeControl_def prop_key_def)
  have v: "control_value
             (update_children (fg_removeControl (Some ''username'')) 0 login_two_forms_state) 2
           = JStr []"
    unfolding removed
    by (rule control_value_leaf [where c = "\<lparr>ac_kind = Control (JStr []), ac_validators = [10],
                        ac_asyncValidators = []\<rparr>"])
       (simp_all add: login_two_forms_state_def)
  have a: "control_asyncValidator login_two_forms_state 2 = []"
    by (simp add: control_asyncValidator_def login_two_forms_state_def)
  have f: "fresh login_two_forms_state = 4"
    by (simp add: login_two_forms_state_def)
  show ?thesis
    unfolding FormControlTarget_single [OF target tree name] login_two_forms_initialized
      FormControlTarget_body_present [OF grp _ _ below, of "[(''username'', 2)]" "''username''" 2,
        simplified] v a f
    by (simp add: new_FormControl_def fg_removeControl_def prop_key_def)
qed

theorem variant_isolation_witness:
  "wf_state login_two_forms_state \<and>
   normalizeFormId LoginRequest (FormId ''secondary'') = [''secondary''] \<and>
   normalizeFormId LoginRequest NoFormId = [''LoginRequest''] \<and>
   (\<exists>st'. FormGroupValidators (One 5) (FormId ''secondary'') LoginRequest login_two_forms_state
             = Inr st' \<and>
          leaves_alone ''class LoginRequest'' ''LoginRequest'' login_two_forms_state st' \<and>
          heap st' 0 = heap login_two_forms_state 0 \<and>
          heap st' 1 = Some \<lparr>ac_kind = Group [(''username'', 3)], ac_validators = [5],
                              ac_asyncValidators = []\<rparr>) \<and>
   (\<exists>st'. FormControlTarget (Rules (One 6)) NoFormId LoginRequest ''username'' None
             login_two_forms_state = Inr st' \<and>
          leaves_alone ''class LoginRequest'' ''secondary'' login_two_forms_state st' \<and>
          heap st' 1 = heap login_two_forms_state 1 \<and>
          heap st' 3 = heap login_two_forms_state 3 \<and>
          heap st' 4 = Some \<lparr>ac_kind = Control (JStr []), ac_validators = [6],
                              ac_asyncValidators = []\<rparr>)"
proof -
  let ?st1 = "login_two_forms_state
            \<lparr>heap := (heap login_two_forms_state)
               (1 \<mapsto> \<lparr>ac_kind = Group [(''username'', 3)], ac_validators = [5],
                         ac_asyncValidators = []\<rparr>)\<rparr>"
  let ?st2 = "login_two_forms_state
            \<lparr>heap := (heap login_two_forms_state)
               (4 \<mapsto> \<lparr>ac_kind = Control (JStr []), ac_validators = [6],
                         ac_asyncValidators = []\<rparr>,
                0 \<mapsto> \<lparr>ac_kind = Group [(''username'', 4)], ac_validators = [],
                         ac_asyncValidators = []\<rparr>),
             fresh := 5\<rparr>"
  have names1: "normalizeFormId LoginRequest (FormId ''secondary'') = [''secondary'']"
    and names2: "normalizeFormId LoginRequest NoFormId = [''LoginRequest'']"
    by (simp_all add: normalizeFormId_def LoginRequest_def DEFAULT_GROUP_def)
  have other1: "''class LoginRequest'' \<noteq> type_key LoginRequest \<or>
                ''LoginRequest'' \<notin> set (normalizeFormId LoginRequest (FormId ''secondary''))"
    and other2: "''class LoginRequest'' \<noteq> type_key LoginRequest \<or>
                ''secondary'' \<notin> set (normalizeFormId LoginRequest NoFormId)"
    by (simp_all add: names1 names2)
  have alone1: "leaves_alone ''class LoginRequest'' ''LoginRequest'' login_two_forms_state ?st1"
    using variant_isolation [OF wf_login_two_forms_state other1, of "One 5" ?st1]
      FormGroupValidators_secondary
    by blast
  have alone2: "leaves_alone ''class LoginRequest'' ''secondary'' login_two_forms_state ?st2"
    using variant_isolation [OF wf_login_two_forms_state other2,
        of _ _ "Rules (One 6)" "''username''" None ?st2]
      FormControlTarget_default
    by blast
  have cells1: "heap ?st1 0 = heap login_two_forms_state 0"
    "heap ?st1 1 = Some \<lparr>ac_kind = Group [(''username'', 3)], ac_validators = [5],
                              ac_asyncValidators = []\<rparr>"
    by simp_all
  have cells2: "heap ?st2 1 = heap login_two_forms_state 1"
    "heap ?st2 3 = heap login_two_forms_state 3"
    "heap ?st2 4 = Some \<lparr>ac_kind = Control (JStr []), ac_validators = [6],
                              ac_asyncValidators = []\<rparr>"
    by simp_all
  show ?thesis
    using wf_login_two_forms_state names1 names2 FormGroupValidators_secondary alone1 cells1
      FormControlTarget_default alone2 cells2
    by blast
qed

subsection \<open>Nesting\<close>

lemma normalizeFormId_source:
  "normalizeFormId sourceType (case sourceFormId of None \<Rightarrow> NoFormId | Some s \<Rightarrow> FormId s)
     = [nested_form_id sourceType sourceFormId]"
  by (simp add: normalizeFormId_def nested_form_id_def split: option.splits)

lemma getFormGroups_same_registry:
  assumes "METADATA st' = METADATA st"
  shows "getFormGroups st' type formId = getFormGroups st type formId"
  by (simp only: getFormGroups_def assms)

lemma getFormGroups_source:
  assumes "form_address st sourceType (nested_form_id sourceType sourceFormId) = Some n"
  shows "getFormGroups st sourceType
           (case sourceFormId of None \<Rightarrow> NoFormId | Some s \<Rightarrow> FormId s) = Inr [Ref n]"
  using normalizeFormId_source assms by (rule getFormGroups_single)

lemma NestedFormGroup_body_found:
  assumes "getFormGroups st sourceType
             (case sourceFormId of None \<Rightarrow> NoFormId | Some s \<Rightarrow> FormId s) = Inr [Ref n]"
  shows "NestedFormGroup_body sourceType sourceFormId pn e st =
           (case the_group st e of
              Inl err \<Rightarrow> Inl err
            | Inr (g, cs) \<Rightarrow> Inr (update_children (fg_addControl pn n) g st))"
  using assms by (simp add: NestedFormGroup_body_def)

lemma touches_only_NestedFormGroup_body:
  assumes "NestedFormGroup_body sourceType sourceFormId pn e st = Inr st'"
  shows "touches_only (entry_addrs [e]) st st'"
proof -
  have "st' = st \<or> (\<exists>g cs f. the_group st e = Inr (g, cs) \<and> st' = update_children f g st)"
    using assms
    by (auto simp: NestedFormGroup_body_def split: sum.splits entry.splits if_splits)
  then show ?thesis
  proof
    assume "st' = st"
    then show ?thesis by (simp add: touches_only_refl)
  next
    assume "\<exists>g cs f. the_group st e = Inr (g, cs) \<and> st' = update_children f g st"
    then obtain g cs f where g: "the_group st e = Inr (g, cs)" and st': "st' = update_children f g st"
      by blast
    have "entry_addrs [e] = {g}"
      using the_group_Inr [OF g] by (simp add: entry_addrs_def)
    then show ?thesis
      by (simp add: st' touches_only_update_children)
  qed
qed

lemma get_field_nest:
  assumes "is_group st g0"
  shows "get_field (update_children (fg_addControl (Some q) n) g0 st) g q =
           (if g = g0 then (case get_field st g q of None \<Rightarrow> Some n | Some x \<Rightarrow> Some x)
            else get_field st g q)"
  using assms
  by (auto simp: is_group_def get_field_def update_children_def fg_addControl_def prop_key_def
      map_add_def split: option.splits)

lemma nesting_loop:
  assumes "wf_state st"
    and "getFormGroups st sourceType
           (case sourceFormId of None \<Rightarrow> NoFormId | Some s \<Rightarrow> FormId s) = Inr [Ref n]"
    and "forEach (NestedFormGroup_body sourceType sourceFormId (Some q)) es st = Inr st'"
    and "Ref g \<in> set es"
  shows "get_field st' g q = (case get_field st g q of None \<Rightarrow> Some n | Some x \<Rightarrow> Some x)"
  using assms
proof (induction es arbitrary: st)
  case Nil
  then show ?case by simp
next
  case (Cons x xs)
  let ?body = "NestedFormGroup_body sourceType sourceFormId (Some q)"
  obtain st1 where x: "?body x st = Inr st1" and rest: "forEach ?body xs st1 = Inr st'"
    using Cons.prems(3) by (auto split: sum.splits)
  obtain g0 cs0 where g0: "the_group st x = Inr (g0, cs0)"
    and st1: "st1 = update_children (fg_addControl (Some q) n) g0 st"
    using x unfolding NestedFormGroup_body_found [OF Cons.prems(2)]
    by (cases "the_group st x") auto
  have xg0: "x = Ref g0" and grp0: "is_group st g0"
    using the_group_Inr [OF g0] by (auto simp: is_group_def)
  have step: "touches_only (entry_addrs [x]) st st1"
    using x by (rule touches_only_NestedFormGroup_body)
  have wf1: "wf_state st1"
    using Cons.prems(1) step by (rule wf_state_touches_only)
  have src1: "getFormGroups st1 sourceType
           (case sourceFormId of None \<Rightarrow> NoFormId | Some s \<Rightarrow> FormId s) = Inr [Ref n]"
  proof -
    have "METADATA st1 = METADATA st"
      using step by (simp add: touches_only_def)
    then have "getFormGroups st1 sourceType
           (case sourceFormId of None \<Rightarrow> NoFormId | Some s \<Rightarrow> FormId s) =
         getFormGroups st sourceType
           (case sourceFormId of None \<Rightarrow> NoFormId | Some s \<Rightarrow> FormId s)"
      by (rule getFormGroups_same_registry)
    then show ?thesis
      using Cons.prems(2) by simp
  qed
  have field1: "get_field st1 g q =
           (if g = g0 then (case get_field st g q of None \<Rightarrow> Some n | Some x \<Rightarrow> Some x)
            else get_field st g q)"
    unfolding st1 using grp0 by (rule get_field_nest)
  show ?case
  proof (cases "Ref g \<in> set xs")
    case True
    have "get_field st' g q = (case get_field st1 g q of None \<Rightarrow> Some n | Some x \<Rightarrow> Some x)"
      using wf1 src1 rest True by (rule Cons.IH)
    then show ?thesis
      by (simp add: field1 split: option.splits)
  next
    case False
    then have g: "g = g0"
      using Cons.prems(4) xg0 by simp
    have "touches_only (entry_addrs xs) st1 st'"
      using touches_only_NestedFormGroup_body wf1 rest by (rule forEach_touches_only)
    moreover have "g \<notin> entry_addrs xs"
      using False by (simp add: entry_addrs_def)
    moreover have "g < fresh st1"
    proof -
      have "is_group st1 g"
        using step grp0 g unfolding touches_only_def by blast
      with wf1 show ?thesis by (rule is_group_below)
    qed
    ultimately have "heap st' g = heap st1 g"
      by (simp add: touches_only_def)
    then have "get_field st' g q = get_field st1 g q"
      by (simp add: get_field_def)
    then show ?thesis
      using field1 unfolding g by simp
  qed
qed

lemma ensure_form_new_cells:
  assumes "\<forall>a \<ge> n. heap st a = None \<or> heap st a = Some new_FormGroup"
  shows "\<forall>a \<ge> n. heap (ensure_form type st f) a = None \<or>
                  heap (ensure_form type st f) a = Some new_FormGroup"
  using assms by (auto simp: ensure_form_def split: option.splits)

lemma ensure_forms_new_cells:
  "\<forall>a \<ge> n. heap st a = None \<or> heap st a = Some new_FormGroup \<Longrightarrow>
   \<forall>a \<ge> n. heap (foldl (ensure_form type) st fs) a = None \<or>
            heap (foldl (ensure_form type) st fs) a = Some new_FormGroup"
proof (induction fs arbitrary: st)
  case Nil
  then show ?case by simp
next
  case (Cons x xs)
  show ?case
    using Cons.IH [OF ensure_form_new_cells [OF Cons.prems, of type x]] by simp
qed

lemma initializeMetadata_new_cells:
  assumes "wf_state st" and "fresh st \<le> a"
  shows "heap (initializeMetadata type formId st) a = None \<or>
         heap (initializeMetadata type formId st) a = Some new_FormGroup"
proof -
  have "\<forall>a \<ge> fresh st. heap (ensure_type type st) a = None \<or>
                         heap (ensure_type type st) a = Some new_FormGroup"
  proof (intro allI impI)
    fix b
    assume "fresh st \<le> b"
    then have "heap st b = None"
      using wf_state_below [OF assms(1), of b] by (cases "heap st b") auto
    then show "heap (ensure_type type st) b = None \<or>
               heap (ensure_type type st) b = Some new_FormGroup"
      by (simp add: ensure_type_heap)
  qed
  then show ?thesis
    unfolding initializeMetadata_def using ensure_forms_new_cells assms(2) by blast
qed

lemma get_field_initializeMetadata:
  assumes "wf_state st" and "get_field st g q = None"
  shows "get_field (initializeMetadata type formId st) g q = None"
proof (cases "g < fresh st")
  case True
  then show ?thesis
    using assms(2) by (simp add: get_field_def initializeMetadata_heap_below)
next
  case False
  then show ?thesis
    using initializeMetadata_new_cells [OF assms(1), of g type formId]
    by (auto simp: get_field_def new_FormGroup_def)
qed

text \<open>
  Let \<^verbatim>\<open>NestedFormGroup\<close> return, let \<open>g\<close> be the group of one of the host forms it
  names, which had no field \<open>q\<close>, and let the registry hold the group \<open>n\<close> for the source
  type under the source form id. Then the field \<open>q\<close> of \<open>g\<close> is \<open>n\<close> itself: the address that
  \<^verbatim>\<open>toFormGroup(sourceType, sourceFormId)\<close> returns for a source form id other than the
  sentinel. When the source form is not the default form of the source type,
  \<^verbatim>\<open>toFormGroup(sourceType)\<close> does not return \<open>n\<close>. The accessors are functions of the
  registry, so each later read gives the same answer.
\<close>

lemma nested_field_is_source_group:
  assumes wf: "wf_state st"
    and run: "NestedFormGroup sourceType sourceFormId targetFormId type propName descriptor st
                = Inr st'"
    and name: "acting_propName type propName descriptor = Some q"
    and host: "h \<in> set (normalizeFormId type targetFormId)" "form_address st' type h = Some g"
    and src: "form_address st' sourceType (nested_form_id sourceType sourceFormId) = Some n"
    and new: "get_field st g q = None"
  shows "get_field st' g q = Some n \<and>
         (sourceFormId \<noteq> Some DEFAULT_GROUP \<longrightarrow>
            toFormGroup sourceType sourceFormId st' = Inr (Ref n)) \<and>
         (nested_form_id sourceType sourceFormId \<noteq> type_name sourceType \<longrightarrow>
            toFormGroup sourceType None st' \<noteq> Inr (Ref n))"
proof -
  let ?st1 = "initializeMetadata type targetFormId st"
  let ?body = "NestedFormGroup_body sourceType sourceFormId (Some q)"
  let ?s = "nested_form_id sourceType sourceFormId"
  have wf1: "wf_state ?st1"
    using wf by (rule wf_state_initializeMetadata)
  obtain es where groups: "getFormGroups ?st1 type targetFormId = Inr es"
    and loop: "forEach ?body es ?st1 = Inr st'"
    using run name by (auto simp: NestedFormGroup_def Let_def split: sum.splits)
  have frame: "touches_only (entry_addrs es) ?st1 st'"
    using touches_only_NestedFormGroup_body wf1 loop by (rule forEach_touches_only)
  have meta: "METADATA st' = METADATA ?st1"
    using frame by (simp add: touches_only_def)
  have wf': "wf_state st'"
    using wf1 frame by (rule wf_state_touches_only)
  have src1: "form_address ?st1 sourceType ?s = Some n"
    using src by (simp add: form_address_def meta)
  have host1: "form_address ?st1 type h = Some g"
    using host(2) by (simp add: form_address_def meta)
  have "Ref g \<in> set es"
  proof -
    obtain forms where forms: "METADATA ?st1 (type_key type) = Some forms"
      and g: "map_of forms h = Some g"
      using host1 by (auto simp: form_address_def split: option.splits)
    have "es = map (read_form forms) (normalizeFormId type targetFormId)"
      using groups forms host(1) by (auto simp: getFormGroups_def Let_def split: if_splits)
    moreover have "read_form forms h = Ref g"
      using g by (simp add: read_form_def)
    ultimately show ?thesis
      using host(1) by force
  qed
  then have "get_field st' g q =
               (case get_field ?st1 g q of None \<Rightarrow> Some n | Some x \<Rightarrow> Some x)"
    using nesting_loop [OF wf1 getFormGroups_source [OF src1] loop] by simp
  moreover have "get_field ?st1 g q = None"
    using wf new by (rule get_field_initializeMetadata)
  ultimately have field: "get_field st' g q = Some n"
    by simp
  obtain forms where forms: "METADATA st' (type_key sourceType) = Some forms"
    and n: "map_of forms ?s = Some n"
    using src by (auto simp: form_address_def split: option.splits)
  have direct: "toFormGroup sourceType sourceFormId st' = Inr (Ref n)"
    if "sourceFormId \<noteq> Some DEFAULT_GROUP"
    using that forms n
    by (auto simp: toFormGroup_def nested_form_id_def read_form_def Let_def
        split: option.splits if_splits)
  have other: "toFormGroup sourceType None st' \<noteq> Inr (Ref n)"
    if differ: "?s \<noteq> type_name sourceType"
  proof
    assume "toFormGroup sourceType None st' = Inr (Ref n)"
    then have "map_of forms (type_name sourceType) = Some n"
      using forms
      by (auto simp: toFormGroup_def read_form_def Let_def split: option.splits if_splits)
    then have "registered st' (type_key sourceType) (type_name sourceType) n"
      using forms by (auto simp: registered_def)
    moreover have "registered st' (type_key sourceType) ?s n"
      using forms n by (auto simp: registered_def)
    ultimately show False
      using wf_state_inj [OF wf'] differ by blast
  qed
  show ?thesis
    using field direct other by blast
qed

lemma profile_forms_state_reached:
  "initializeMetadata ProfileRequest (FormIds [DEFAULT_GROUP, ''editProfileForm'']) empty_state
     = profile_forms_state"
  by (simp add: initializeMetadata_def normalizeFormId_def ensure_type_def ensure_form_def
      read_form_def ProfileRequest_def empty_state_def Object_prototype_names_def
      DEFAULT_GROUP_def profile_forms_state_def numeral_2_eq_2)

lemma wf_profile_forms_state: "wf_state profile_forms_state"
  using wf_state_initializeMetadata [OF wf_empty_state] profile_forms_state_reached
  by metis

lemma nesting_example:
  "\<exists>st'. NestedFormGroup ProfileRequest (Some ''editProfileForm'')
            (FormIds [DEFAULT_GROUP, ''secondary'']) LoginRequest ''profile'' None
            profile_forms_state = Inr st' \<and>
         form_address st' LoginRequest ''LoginRequest'' = Some 2 \<and>
         form_address st' ProfileRequest ''editProfileForm'' = Some 1"
  by (simp add: NestedFormGroup_def NestedFormGroup_body_def initializeMetadata_def
      normalizeFormId_def ensure_type_def ensure_form_def read_form_def getFormGroups_def
      the_group_def the_control_def update_children_def fg_addControl_def prop_key_def
      acting_propName_def form_address_def new_FormGroup_def
      ProfileRequest_def LoginRequest_def profile_forms_state_def
      Object_prototype_names_def DEFAULT_GROUP_def)

lemma nested_field_is_source_group_example:
  "wf_state profile_forms_state \<and>
   acting_propName LoginRequest ''profile'' None = Some ''profile'' \<and>
   ''LoginRequest'' \<in> set (normalizeFormId LoginRequest (FormIds [DEFAULT_GROUP, ''secondary''])) \<and>
   get_field profile_forms_state 2 ''profile'' = None \<and>
   nested_form_id ProfileRequest (Some ''editProfileForm'') = ''editProfileForm'' \<and>
   (\<exists>st'. NestedFormGroup ProfileRequest (Some ''editProfileForm'')
            (FormIds [DEFAULT_GROUP, ''secondary'']) LoginRequest ''profile'' None
            profile_forms_state = Inr st' \<and>
          form_address st' LoginRequest ''LoginRequest'' = Some 2 \<and>
          form_address st' ProfileRequest ''editProfileForm'' = Some 1 \<and>
          get_field st' 2 ''profile'' = Some 1 \<and>
          toFormGroup ProfileRequest (Some ''editProfileForm'') st' = Inr (Ref 1) \<and>
          toFormGroup ProfileRequest None st' \<noteq> Inr (Ref 1))"
proof -
  have name: "acting_propName LoginRequest ''profile'' None = Some ''profile''"
    by (simp add: acting_propName_def)
  have host: "''LoginRequest'' \<in> set (normalizeFormId LoginRequest (FormIds [DEFAULT_GROUP, ''secondary'']))"
    by (simp add: normalizeFormId_def LoginRequest_def)
  have new: "get_field profile_forms_state 2 ''profile'' = None"
    by (simp add: get_field_def profile_forms_state_def)
  have s: "nested_form_id ProfileRequest (Some ''editProfileForm'') = ''editProfileForm''"
    by (simp add: nested_form_id_def DEFAULT_GROUP_def)
  have differ: "nested_form_id ProfileRequest (Some ''editProfileForm'') \<noteq> type_name ProfileRequest"
    unfolding s by (simp add: ProfileRequest_def)
  have no_sentinel: "Some ''editProfileForm'' \<noteq> Some DEFAULT_GROUP"
    by (simp add: DEFAULT_GROUP_def)
  obtain st' where run: "NestedFormGroup ProfileRequest (Some ''editProfileForm'')
            (FormIds [DEFAULT_GROUP, ''secondary'']) LoginRequest ''profile'' None
            profile_forms_state = Inr st'"
    and g: "form_address st' LoginRequest ''LoginRequest'' = Some 2"
    and n: "form_address st' ProfileRequest ''editProfileForm'' = Some 1"
    using nesting_example by blast
  have n': "form_address st' ProfileRequest
              (nested_form_id ProfileRequest (Some ''editProfileForm'')) = Some 1"
    using n by (simp add: s)
  have "get_field st' 2 ''profile'' = Some 1 \<and>
        toFormGroup ProfileRequest (Some ''editProfileForm'') st' = Inr (Ref 1) \<and>
        toFormGroup ProfileRequest None st' \<noteq> Inr (Ref 1)"
    using nested_field_is_source_group [OF wf_profile_forms_state run name host g n' new]
      differ no_sentinel
    by blast
  then show ?thesis
    using wf_profile_forms_state name host new s run g n by blast
qed

text \<open>
  C6. The source form given by the sentinel. On the registry that holds the default form
  of \<^verbatim>\<open>ProfileRequest\<close> at 0, \<^verbatim>\<open>@NestedFormGroup(ProfileRequest, DEFAULT_GROUP)\<close> on the
  field \<^verbatim>\<open>profile\<close> of \<^verbatim>\<open>LoginRequest\<close> returns and the field holds the group 0, while
  the direct lookup \<^verbatim>\<open>toFormGroup(ProfileRequest, DEFAULT_GROUP)\<close> returns \<^verbatim>\<open>undefined\<close>,
  not that group: the decorator resolves the sentinel to the name of the type and the
  accessor does not. The lookup without a form id returns the group.
\<close>

theorem nested_sentinel_not_found_by_toFormGroup:
  "\<exists>st'. NestedFormGroup ProfileRequest (Some DEFAULT_GROUP) NoFormId LoginRequest ''profile''
           None profile_forms_state = Inr st' \<and>
         form_address st' LoginRequest ''LoginRequest'' = Some 2 \<and>
         get_field st' 2 ''profile'' = Some 0 \<and>
         toFormGroup ProfileRequest (Some DEFAULT_GROUP) st' = Inr Undefined \<and>
         toFormGroup ProfileRequest None st' = Inr (Ref 0)"
  by (simp add: NestedFormGroup_def NestedFormGroup_body_def initializeMetadata_def
      normalizeFormId_def ensure_type_def ensure_form_def read_form_def getFormGroups_def
      the_group_def the_control_def update_children_def fg_addControl_def prop_key_def
      acting_propName_def form_address_def new_FormGroup_def get_field_def toFormGroup_def
      ProfileRequest_def LoginRequest_def profile_forms_state_def
      Object_prototype_names_def DEFAULT_GROUP_def)

text \<open>
  The part of the silent skip that the code does have: when the source type is registered
  and the read of its form gives \<^verbatim>\<open>undefined\<close>, \<^verbatim>\<open>NestedFormGroup\<close> returns and has done
  no more than initialise the host forms.
\<close>

lemma forEach_skip:
  "(\<And>e. body e st = Inr st) \<Longrightarrow> forEach body es st = Inr st"
  by (induction es) simp_all

lemma nesting_missing_form_skipped:
  assumes "type_registered (initializeMetadata type targetFormId st) sourceType"
    and "\<not> has_form (initializeMetadata type targetFormId st) sourceType
             (nested_form_id sourceType sourceFormId)"
  shows "NestedFormGroup sourceType sourceFormId targetFormId type propName descriptor st
           = Inr (initializeMetadata type targetFormId st)"
proof -
  let ?st1 = "initializeMetadata type targetFormId st"
  obtain forms where forms: "METADATA ?st1 (type_key sourceType) = Some forms"
    using assms(1) by (auto simp: type_registered_def)
  have "read_form forms (nested_form_id sourceType sourceFormId) = Undefined"
    using assms(2) forms
    by (cases "read_form forms (nested_form_id sourceType sourceFormId)")
       (simp_all add: has_form_def)
  then have src: "getFormGroups ?st1 sourceType
           (case sourceFormId of None \<Rightarrow> NoFormId | Some s \<Rightarrow> FormId s) = Inr [Undefined]"
    using forms by (simp add: getFormGroups_def normalizeFormId_source)
  have body: "NestedFormGroup_body sourceType sourceFormId pn e ?st1 = Inr ?st1" for pn e
    by (simp add: NestedFormGroup_body_def src)
  have loop: "forEach (NestedFormGroup_body sourceType sourceFormId pn) es ?st1 = Inr ?st1"
    for pn es
    using body by (rule forEach_skip)
  have "getFormGroups ?st1 type targetFormId \<noteq> Inl TypeError"
    using initializeMetadata_registered [of type targetFormId st]
    by (auto simp: getFormGroups_def Let_def type_registered_def)
  then obtain es where "getFormGroups ?st1 type targetFormId = Inr es"
    by (cases "getFormGroups ?st1 type targetFormId") (auto intro: error.exhaust)
  then show ?thesis
    by (simp add: NestedFormGroup_def Let_def loop)
qed

subsection \<open>The decorators keep the invariant\<close>

lemma wf_state_forEach:
  assumes step: "\<And>e st st'. wf_state st \<Longrightarrow> body e st = Inr st' \<Longrightarrow> wf_state st'"
    and wf: "wf_state st"
    and run: "forEach body es st = Inr st'"
  shows "wf_state st'"
  using wf run
proof (induction es arbitrary: st)
  case Nil
  then show ?case by simp
next
  case (Cons x xs)
  obtain st1 where x: "body x st = Inr st1" and rest: "forEach body xs st1 = Inr st'"
    using Cons.prems(2) by (auto split: sum.splits)
  have "wf_state st1"
    using Cons.prems(1) x by (rule step)
  then show ?case
    using rest by (rule Cons.IH)
qed

lemma wf_state_FormControlAsyncValidators_body:
  assumes wf: "wf_state st"
    and run: "FormControlAsyncValidators_body validators type pn e st = Inr st'"
  shows "wf_state st'"
proof -
  obtain g cs where g: "the_group st e = Inr (g, cs)"
    using run by (auto simp: FormControlAsyncValidators_body_def split: sum.splits)
  show ?thesis
  proof (cases "fg_get cs pn")
    case None
    then have "st' = addControl_new g pn
                 (new_FormControl (read_property type pn) NoRules
                    (makeValidatorsArray (Some validators))) st"
      using run g by (simp add: FormControlAsyncValidators_body_def)
    then show ?thesis
      using wf_state_touches_only [OF wf touches_only_addControl_new [OF wf]] by simp
  next
    case (Some ctrl)
    then have "addAsyncValidators validators (Ref ctrl) st = Inr st'"
      using run g by (simp add: FormControlAsyncValidators_body_def)
    then have "touches_only (entry_addrs [Ref ctrl]) st st'"
      by (rule touches_only_addAsyncValidators)
    with wf show ?thesis
      by (rule wf_state_touches_only)
  qed
qed

lemma wf_state_decorator:
  assumes step: "\<And>e st st'. wf_state st \<Longrightarrow> body e st = Inr st' \<Longrightarrow> wf_state st'"
    and wf: "wf_state st"
    and run: "(case getFormGroups (initializeMetadata type formId st) type formId of
                 Inl e \<Rightarrow> Inl e
               | Inr es \<Rightarrow> forEach body es (initializeMetadata type formId st)) = Inr st'"
  shows "wf_state st'"
proof -
  obtain es where "forEach body es (initializeMetadata type formId st) = Inr st'"
    using run by (auto split: sum.splits)
  with step wf_state_initializeMetadata [OF wf] show ?thesis
    by (rule wf_state_forEach)
qed

text \<open>Every registry that the six decorators build from the empty one satisfies the
  invariant.\<close>

lemma decorators_keep_wf_state:
  assumes wf: "wf_state st"
  shows "FormGroupTarget formId type st = Inr st' \<Longrightarrow> wf_state st'"
    and "FormGroupValidators vs formId type st = Inr st' \<Longrightarrow> wf_state st'"
    and "FormGroupAsyncValidators avs formId type st = Inr st' \<Longrightarrow> wf_state st'"
    and "FormControlTarget vo formId type propName descriptor st = Inr st' \<Longrightarrow> wf_state st'"
    and "FormControlAsyncValidators avs formId type propName descriptor st = Inr st'
           \<Longrightarrow> wf_state st'"
    and "NestedFormGroup sourceType sourceFormId formId type propName descriptor st = Inr st'
           \<Longrightarrow> wf_state st'"
proof -
  show "wf_state st'" if "FormGroupTarget formId type st = Inr st'"
    using that wf_state_initializeMetadata [OF wf, of type formId]
    by (auto simp: FormGroupTarget_def)
  show "wf_state st'" if "FormGroupValidators vs formId type st = Inr st'"
  proof (rule wf_state_decorator [OF _ wf])
    show "wf_state b" if "wf_state a" "addValidators vs e a = Inr b" for e a b
      using that(1) touches_only_addValidators [OF that(2)] by (rule wf_state_touches_only)
    show "(case getFormGroups (initializeMetadata type formId st) type formId of
             Inl e \<Rightarrow> Inl e
           | Inr es \<Rightarrow> forEach (addValidators vs) es (initializeMetadata type formId st))
          = Inr st'"
      using that by (simp add: FormGroupValidators_def Let_def)
  qed
  show "wf_state st'" if "FormGroupAsyncValidators avs formId type st = Inr st'"
  proof (rule wf_state_decorator [OF _ wf])
    show "wf_state b" if "wf_state a" "addAsyncValidators avs e a = Inr b" for e a b
      using that(1) touches_only_addAsyncValidators [OF that(2)] by (rule wf_state_touches_only)
    show "(case getFormGroups (initializeMetadata type formId st) type formId of
             Inl e \<Rightarrow> Inl e
           | Inr es \<Rightarrow> forEach (addAsyncValidators avs) es (initializeMetadata type formId st))
          = Inr st'"
      using that by (simp add: FormGroupAsyncValidators_def Let_def)
  qed
  show "wf_state st'" if "FormControlTarget vo formId type propName descriptor st = Inr st'"
  proof (rule wf_state_decorator [OF _ wf])
    show "wf_state b"
      if "wf_state a"
        "FormControlTarget_body vo type (acting_propName type propName descriptor) e a = Inr b"
      for e a b
      using that(1) touches_only_FormControlTarget_body [OF that]
      by (rule wf_state_touches_only)
    show "(case getFormGroups (initializeMetadata type formId st) type formId of
             Inl e \<Rightarrow> Inl e
           | Inr es \<Rightarrow>
               forEach (FormControlTarget_body vo type
                          (acting_propName type propName descriptor)) es
                 (initializeMetadata type formId st))
          = Inr st'"
      using that by (simp add: FormControlTarget_def Let_def)
  qed
  show "wf_state st'"
    if "FormControlAsyncValidators avs formId type propName descriptor st = Inr st'"
  proof (rule wf_state_decorator [OF _ wf])
    show "wf_state b"
      if "wf_state a"
        "FormControlAsyncValidators_body avs type (acting_propName type propName descriptor) e a
           = Inr b"
      for e a b
      using that by (rule wf_state_FormControlAsyncValidators_body)
    show "(case getFormGroups (initializeMetadata type formId st) type formId of
             Inl e \<Rightarrow> Inl e
           | Inr es \<Rightarrow>
               forEach (FormControlAsyncValidators_body avs type
                          (acting_propName type propName descriptor)) es
                 (initializeMetadata type formId st))
          = Inr st'"
      using that by (simp add: FormControlAsyncValidators_def Let_def)
  qed
  show "wf_state st'"
    if "NestedFormGroup sourceType sourceFormId formId type propName descriptor st = Inr st'"
  proof (rule wf_state_decorator [OF _ wf])
    show "wf_state b"
      if "wf_state a"
        "NestedFormGroup_body sourceType sourceFormId
           (acting_propName type propName descriptor) e a = Inr b"
      for e a b
      using that(1) touches_only_NestedFormGroup_body [OF that(2)]
      by (rule wf_state_touches_only)
    show "(case getFormGroups (initializeMetadata type formId st) type formId of
             Inl e \<Rightarrow> Inl e
           | Inr es \<Rightarrow>
               forEach (NestedFormGroup_body sourceType sourceFormId
                          (acting_propName type propName descriptor)) es
                 (initializeMetadata type formId st))
          = Inr st'"
      using that by (simp add: NestedFormGroup_def Let_def)
  qed
qed

subsection \<open>The value of the control of a field\<close>

lemma read_property_instance: "read_property type (Some q) = instance_value type q"
  by (simp add: read_property_def instance_value_def prop_key_def)

lemma get_field_group:
  "heap st g = Some gc \<Longrightarrow> ac_kind gc = Group cs \<Longrightarrow> get_field st g q = map_of cs q"
  by (simp add: get_field_def)

text \<open>One run of the loop body of \<^verbatim>\<open>FormControlTarget\<close>, on any group of any registry.\<close>

lemma FormControlTarget_body_group:
  assumes grp: "heap st g = Some gc" "ac_kind gc = Group cs" and below: "g \<noteq> fresh st"
  shows "\<exists>st' leaf.
           FormControlTarget_body vo type (Some q) (Ref g) st = Inr st' \<and>
           get_field st' g q = Some (fresh st) \<and>
           heap st' (fresh st) = Some leaf \<and>
           ac_kind leaf =
             Control (case get_field st g q of
                        None \<Rightarrow> instance_value type q
                      | Some c \<Rightarrow>
                          control_value (update_children (fg_removeControl (Some q)) g st) c) \<and>
           (\<forall>a. a \<noteq> g \<longrightarrow> a \<noteq> fresh st \<longrightarrow> heap st' a = heap st a)"
proof (cases "map_of cs q")
  case None
  have gf: "get_field st g q = None"
    using None by (simp add: get_field_group [OF grp])
  show ?thesis
    unfolding FormControlTarget_body_absent [OF grp None below] gf
    using below None
    by (simp add: get_field_def new_FormControl_kind read_property_instance map_add_def)
next
  case (Some c)
  have gf: "get_field st g q = Some c"
    using Some by (simp add: get_field_group [OF grp])
  show ?thesis
    unfolding FormControlTarget_body_present [OF grp Some below] gf
    using below
    by (simp add: get_field_def new_FormControl_kind map_add_def map_of_removeControl)
qed

lemma control_value_after_removal:
  assumes "heap st g = Some gc" "ac_kind gc = Group cs"
    and "heap st c = Some cn" "ac_kind cn = Control v"
  shows "control_value (update_children (fg_removeControl (Some q)) g st) c = v"
proof -
  have "c \<noteq> g" using assms by auto
  then show ?thesis
    using assms by (simp add: control_value_def update_children_group)
qed

lemma FormControlTarget_body_step:
  assumes wf: "wf_state st"
    and run: "FormControlTarget_body vo type (Some q) e st = Inr st1"
    and grp: "is_group st g"
  shows "field_control n st g q w \<Longrightarrow> field_control n st1 g q w"
    and "field_expects type st g q w \<Longrightarrow> field_expects type st1 g q w"
    and "e = Ref g \<Longrightarrow> \<exists>w'. field_control (fresh st) st1 g q w'"
    and "e = Ref g \<Longrightarrow> field_expects type st g q w \<Longrightarrow> field_control (fresh st) st1 g q w"
proof -
  obtain g0 cs0 where g0: "the_group st e = Inr (g0, cs0)"
    using run by (auto simp: FormControlTarget_body_def split: sum.splits)
  then obtain gc0 where e: "e = Ref g0" and cell0: "heap st g0 = Some gc0" "ac_kind gc0 = Group cs0"
    using the_group_Inr by blast
  have below0: "g0 \<noteq> fresh st"
    using wf_state_below [OF wf, of g0] cell0 by auto
  obtain leaf where st1: "get_field st1 g0 q = Some (fresh st)"
    and leaf: "heap st1 (fresh st) = Some leaf"
      "ac_kind leaf =
         Control (case get_field st g0 q of
                    None \<Rightarrow> instance_value type q
                  | Some c \<Rightarrow>
                      control_value (update_children (fg_removeControl (Some q)) g0 st) c)"
    and others: "\<forall>a. a \<noteq> g0 \<longrightarrow> a \<noteq> fresh st \<longrightarrow> heap st1 a = heap st a"
    using FormControlTarget_body_group [OF cell0 below0, of vo type q] run unfolding e by auto
  have processed: "field_control (fresh st) st1 g0 q w'"
    if "w' = (case get_field st g0 q of
                    None \<Rightarrow> instance_value type q
                  | Some c \<Rightarrow>
                      control_value (update_children (fg_removeControl (Some q)) g0 st) c)"
    for w'
    using st1 leaf that by (auto simp: field_control_def)
  have expected: "(case get_field st g0 q of
                    None \<Rightarrow> instance_value type q
                  | Some c \<Rightarrow>
                      control_value (update_children (fg_removeControl (Some q)) g0 st) c) = w"
    if "field_expects type st g0 q w"
    using that control_value_after_removal [OF cell0]
    by (auto simp: field_expects_def field_control_def)
  have kept: "field_control n st1 g q w" if neq: "g \<noteq> g0" and fc: "field_control n st g q w"
    for n
  proof -
    obtain a lf where a: "get_field st g q = Some a" "n \<le> a" "heap st a = Some lf"
      "ac_kind lf = Control w"
      using fc by (auto simp: field_control_def)
    have "g \<noteq> fresh st"
      using is_group_below [OF wf grp] by simp
    then have g: "heap st1 g = heap st g"
      using others neq by simp
    have "a \<noteq> g0" using a cell0 by auto
    moreover have "a \<noteq> fresh st"
      using wf_state_below [OF wf, of a] a by auto
    ultimately have "heap st1 a = heap st a"
      using others by simp
    then show ?thesis
      using a g by (auto simp: field_control_def get_field_def)
  qed
  have kept_none: "get_field st1 g q = None" if neq: "g \<noteq> g0" and none: "get_field st g q = None"
  proof -
    have "g \<noteq> fresh st"
      using is_group_below [OF wf grp] by simp
    then have "heap st1 g = heap st g"
      using others neq by simp
    then show ?thesis
      using none by (simp add: get_field_def)
  qed
  show c3: "\<exists>w'. field_control (fresh st) st1 g q w'" if "e = Ref g"
    using that e processed by auto
  show c4: "field_control (fresh st) st1 g q w" if "e = Ref g" and "field_expects type st g q w"
    using that e processed expected by auto
  show c1: "field_control n st1 g q w" if fc: "field_control n st g q w"
  proof (cases "g = g0")
    case True
    have "field_expects type st g q w"
      using fc by (auto simp: field_expects_def field_control_def)
    then have new: "field_control (fresh st) st1 g q w"
      using c4 e True by simp
    obtain a where "get_field st g q = Some a" "n \<le> a" "heap st a \<noteq> None"
      using fc by (auto simp: field_control_def)
    then have "n \<le> fresh st"
      using wf_state_below [OF wf, of a] by simp
    then show ?thesis
      using new by (auto simp: field_control_def)
  next
    case False
    then show ?thesis using fc by (rule kept)
  qed
  show "field_expects type st1 g q w" if fe: "field_expects type st g q w"
  proof (cases "g = g0")
    case True
    then have "field_control (fresh st) st1 g q w"
      using c4 e fe by simp
    then show ?thesis
      by (auto simp: field_expects_def field_control_def)
  next
    case False
    show ?thesis
      using fe kept [OF False, of 0] kept_none [OF False]
      by (auto simp: field_expects_def)
  qed
qed

lemma FormControlTarget_body_keeps:
  assumes "wf_state st" and "FormControlTarget_body vo type pn e st = Inr st1"
  shows "wf_state st1" and "is_group st g \<Longrightarrow> is_group st1 g" and "fresh st \<le> fresh st1"
proof -
  have t: "touches_only (entry_addrs [e]) st st1"
    using assms by (rule touches_only_FormControlTarget_body)
  show "wf_state st1"
    using assms(1) t by (rule wf_state_touches_only)
  show "is_group st1 g" if "is_group st g"
    using t that by (simp add: touches_only_def)
  show "fresh st \<le> fresh st1"
    using t by (simp add: touches_only_def)
qed

lemma FormControlTarget_loop_keeps:
  assumes "wf_state st"
    and "forEach (FormControlTarget_body vo type (Some q)) es st = Inr st'"
    and "is_group st g"
  shows "field_control n st g q w \<Longrightarrow> field_control n st' g q w"
    and "field_expects type st g q w \<Longrightarrow> field_expects type st' g q w"
  using assms
proof (induction es arbitrary: st)
  case Nil
  {
    case 1
    then show ?case by simp
  next
    case 2
    then show ?case by simp
  }
next
  case (Cons x xs)
  {
    case 1
    obtain st1 where x: "FormControlTarget_body vo type (Some q) x st = Inr st1"
      and rest: "forEach (FormControlTarget_body vo type (Some q)) xs st1 = Inr st'"
      using 1(3) by (auto split: sum.splits)
    have "field_control n st1 g q w"
      using FormControlTarget_body_step(1) [OF 1(2) x 1(4) 1(1)] .
    then show ?case
      using Cons.IH(1) [OF _ FormControlTarget_body_keeps(1) [OF 1(2) x] rest FormControlTarget_body_keeps(2) [OF 1(2) x 1(4)]]
      by simp
  next
    case 2
    obtain st1 where x: "FormControlTarget_body vo type (Some q) x st = Inr st1"
      and rest: "forEach (FormControlTarget_body vo type (Some q)) xs st1 = Inr st'"
      using 2(3) by (auto split: sum.splits)
    have "field_expects type st1 g q w"
      using FormControlTarget_body_step(2) [OF 2(2) x 2(4) 2(1)] .
    then show ?case
      using Cons.IH(2) [OF _ FormControlTarget_body_keeps(1) [OF 2(2) x] rest FormControlTarget_body_keeps(2) [OF 2(2) x 2(4)]]
      by simp
  }
qed

lemma field_control_mono: "field_control m st g q w \<Longrightarrow> n \<le> m \<Longrightarrow> field_control n st g q w"
  by (auto simp: field_control_def)

lemma field_control_unique:
  "field_control n st g q w \<Longrightarrow> field_control m st g q w' \<Longrightarrow> w = w'"
  by (auto simp: field_control_def)

lemma FormControlTarget_loop_processes:
  assumes "wf_state st"
    and "forEach (FormControlTarget_body vo type (Some q)) es st = Inr st'"
    and "is_group st g"
    and "Ref g \<in> set es"
  shows "(\<exists>w'. field_control (fresh st) st' g q w') \<and>
         (field_expects type st g q w \<longrightarrow> field_control (fresh st) st' g q w)"
  using assms
proof (induction es arbitrary: st)
  case Nil
  then show ?case by simp
next
  case (Cons x xs)
  let ?body = "FormControlTarget_body vo type (Some q)"
  obtain st1 where x: "?body x st = Inr st1" and rest: "forEach ?body xs st1 = Inr st'"
    using Cons.prems(2) by (auto split: sum.splits)
  note wf = Cons.prems(1) and grp = Cons.prems(3)
  have wf1: "wf_state st1" and grp1: "is_group st1 g" and mono: "fresh st \<le> fresh st1"
    using FormControlTarget_body_keeps [OF wf x] grp by simp_all
  show ?case
  proof (cases "x = Ref g")
    case True
    obtain w' where "field_control (fresh st) st1 g q w'"
      using FormControlTarget_body_step(3) [OF wf x grp True] by blast
    then have 1: "field_control (fresh st) st' g q w'"
      by (rule FormControlTarget_loop_keeps(1) [OF wf1 rest grp1])
    have 2: "field_control (fresh st) st' g q w" if "field_expects type st g q w"
      using FormControlTarget_loop_keeps(1) [OF wf1 rest grp1 FormControlTarget_body_step(4) [OF wf x grp True that]] .
    show ?thesis
      using 1 2 by blast
  next
    case False
    then have mem: "Ref g \<in> set xs"
      using Cons.prems(4) by simp
    note ih = Cons.IH [OF wf1 rest grp1 mem]
    obtain w' where "field_control (fresh st1) st' g q w'"
      using ih by blast
    then have 1: "field_control (fresh st) st' g q w'"
      using mono by (rule field_control_mono)
    have 2: "field_control (fresh st) st' g q w" if "field_expects type st g q w"
    proof -
      have "field_expects type st1 g q w"
        using FormControlTarget_body_step(2) [OF wf x grp that] .
      then have "field_control (fresh st1) st' g q w"
        using ih by blast
      then show ?thesis
        using mono by (rule field_control_mono)
    qed
    show ?thesis
      using 1 2 by blast
  qed
qed

lemma FormControlTarget_loop_returns:
  assumes "wf_state st" and "\<forall>e \<in> set es. \<exists>g. e = Ref g \<and> is_group st g"
  shows "\<exists>st'. forEach (FormControlTarget_body vo type (Some q)) es st = Inr st'"
  using assms
proof (induction es arbitrary: st)
  case Nil
  then show ?case by simp
next
  case (Cons x xs)
  obtain g gc cs where x: "x = Ref g" and cell: "heap st g = Some gc" "ac_kind gc = Group cs"
    using Cons.prems(2) by (auto simp: is_group_def)
  have below: "g \<noteq> fresh st"
    using wf_state_below [OF Cons.prems(1), of g] cell by auto
  obtain st1 where st1: "FormControlTarget_body vo type (Some q) x st = Inr st1"
    using FormControlTarget_body_group [OF cell below, of vo type q] x by blast
  have "\<forall>e \<in> set xs. \<exists>g. e = Ref g \<and> is_group st1 g"
    using Cons.prems(2) FormControlTarget_body_keeps(2) [OF Cons.prems(1) st1] by auto
  then obtain st' where "forEach (FormControlTarget_body vo type (Some q)) xs st1 = Inr st'"
    using Cons.IH [OF FormControlTarget_body_keeps(1) [OF Cons.prems(1) st1]] by blast
  then show ?case
    using st1 by simp
qed

lemma getFormGroups_initialized:
  obtains forms where "METADATA (initializeMetadata type formId st) (type_key type) = Some forms"
    and "getFormGroups (initializeMetadata type formId st) type formId =
           Inr (map (read_form forms) (normalizeFormId type formId))"
proof -
  obtain forms where forms: "METADATA (initializeMetadata type formId st) (type_key type) = Some forms"
    using initializeMetadata_registered [of type formId st] by (auto simp: type_registered_def)
  have "getFormGroups (initializeMetadata type formId st) type formId =
           Inr (map (read_form forms) (normalizeFormId type formId))"
    by (simp add: getFormGroups_def Let_def forms)
  with forms show ?thesis by (rule that)
qed

lemma read_form_Ref: "read_form forms f = Ref a \<longleftrightarrow> map_of forms f = Some a"
  by (auto simp: read_form_def split: option.splits)

lemma read_form_truthy_own:
  "truthy (read_form forms f) \<Longrightarrow> f \<notin> set Object_prototype_names \<Longrightarrow>
   \<exists>a. map_of forms f = Some a"
  by (auto simp: read_form_def split: option.splits if_splits)

lemma registered_ensure_form_new:
  "registered (ensure_form type st f) k m a \<Longrightarrow> registered st k m a \<or> a = fresh st"
proof -
  consider "ensure_form type st f = st"
    | forms where "METADATA st (type_key type) = Some forms" "map_of forms f = None"
      "ensure_form type st f =
        st\<lparr>METADATA := (METADATA st)(type_key type \<mapsto> forms @ [(f, fresh st)]),
           heap := (heap st)(fresh st \<mapsto> new_FormGroup),
           fresh := Suc (fresh st)\<rparr>"
    using ensure_form_cases by blast
  then show "registered (ensure_form type st f) k m a \<Longrightarrow> registered st k m a \<or> a = fresh st"
  proof cases
    case 1
    then show "registered (ensure_form type st f) k m a \<Longrightarrow> ?thesis" by simp
  next
    case 2
    show "registered (ensure_form type st f) k m a \<Longrightarrow> ?thesis"
      unfolding 2(3) registered_after_store [OF 2(1) 2(2)] by blast
  qed
qed

lemma registered_ensure_forms_new:
  "registered (foldl (ensure_form type) st fs) k m a \<Longrightarrow> registered st k m a \<or> fresh st \<le> a"
proof (induction fs arbitrary: st)
  case Nil
  then show ?case by simp
next
  case (Cons x xs)
  then have "registered (ensure_form type st x) k m a \<or> fresh (ensure_form type st x) \<le> a"
    by simp
  then show ?case
    using registered_ensure_form_new [of type st x k m a] ensure_form_fresh [of st type x]
    by auto
qed

lemma registered_initializeMetadata_new:
  "registered (initializeMetadata type formId st) k m a \<Longrightarrow>
   registered st k m a \<or> fresh st \<le> a"
  using registered_ensure_forms_new [of type "ensure_type type st"]
  by (simp add: initializeMetadata_def registered_ensure_type ensure_type_fresh)

lemma form_address_registered:
  "form_address st type f = Some g \<longleftrightarrow> registered st (type_key type) f g"
  by (auto simp: form_address_def registered_def split: option.splits)

lemma invoice_num_example:
  "\<exists>st'. FormControlTarget (Rules (One 1)) (FormIds [DEFAULT_GROUP, ''editForm''])
           InvoiceRequest ''num'' None empty_state = Inr st' \<and>
         form_address st' InvoiceRequest ''editForm'' = Some 1"
  by (simp add: FormControlTarget_def FormControlTarget_body_def initializeMetadata_def
      normalizeFormId_def ensure_type_def ensure_form_def read_form_def getFormGroups_def
      the_group_def the_control_def update_children_def fg_addControl_def fg_removeControl_def
      prop_key_def acting_propName_def new_FormControl_def new_FormGroup_def fg_get_def
      addControl_new_def read_property_def form_address_def
      InvoiceRequest_def empty_state_def Object_prototype_names_def DEFAULT_GROUP_def)

lemma login_username_example:
  "\<exists>st'. FormControlTarget NoRules (FormIds [DEFAULT_GROUP, ''secondary''])
           LoginRequest ''username'' None login_async_state = Inr st' \<and>
         form_address st' LoginRequest ''LoginRequest'' = Some 0"
  by (simp add: FormControlTarget_def FormControlTarget_body_def initializeMetadata_def
      normalizeFormId_def ensure_type_def ensure_form_def read_form_def getFormGroups_def
      the_group_def the_control_def update_children_def fg_addControl_def fg_removeControl_def
      prop_key_def acting_propName_def new_FormControl_def new_FormGroup_def fg_get_def
      addControl_new_def read_property_def form_address_def control_value_def
      control_asyncValidator_def
      LoginRequest_def login_async_state_def Object_prototype_names_def DEFAULT_GROUP_def)

text \<open>
  C10. Let the registry satisfy the invariant. \<^verbatim>\<open>FormControlTarget\<close> for the field \<open>q\<close>,
  with any form id argument (none, one name or an array of names), returns when none of
  the names it targets is that of a member of \<^verbatim>\<open>Object.prototype\<close>. When it has
  returned, in each form \<open>f\<close> it targets the field is held by a \<^verbatim>\<open>FormControl\<close> stored at
  an address that was unused before the call, and this control holds
  \<^item> the property \<open>q\<close> of \<^verbatim>\<open>new type()\<close> (\<^verbatim>\<open>undefined\<close> when the instance has none)
    when the group of \<open>f\<close> did not have the field before the call;
  \<^item> the value \<open>v\<close> when the group had the field, held by a \<^verbatim>\<open>FormControl\<close> that held \<open>v\<close>;
  \<^item> the value of the previous child, whatever it is, read after the field was removed
    from the group, when the group had the field and \<open>f\<close> is the only form targeted.

  Each run of the loop body on a group returns and stores a control that holds the value
  of the previous child when the group has the field, and the property of
  \<^verbatim>\<open>new type()\<close> only when it has not.
\<close>

theorem initial_value_of_field_control:
  assumes wf: "wf_state st"
    and name: "acting_propName type propName descriptor = Some q"
  shows
    "((\<forall>f \<in> set (normalizeFormId type formId). f \<notin> set Object_prototype_names) \<longrightarrow>
        (\<exists>st'. FormControlTarget vo formId type propName descriptor st = Inr st')) \<and>
     (\<forall>st' f g.
        FormControlTarget vo formId type propName descriptor st = Inr st' \<longrightarrow>
        f \<in> set (normalizeFormId type formId) \<longrightarrow>
        form_address st' type f = Some g \<longrightarrow>
        (\<exists>a leaf w.
           get_field st' g q = Some a \<and> fresh st \<le> a \<and>
           heap st' a = Some leaf \<and> ac_kind leaf = Control w \<and>
           (get_field st g q = None \<longrightarrow>
              w = (case map_of (type_instance type) q of None \<Rightarrow> JUndefined | Some v \<Rightarrow> v)) \<and>
           (\<forall>c cn v. get_field st g q = Some c \<longrightarrow> heap st c = Some cn \<longrightarrow>
                      ac_kind cn = Control v \<longrightarrow> w = v) \<and>
           (\<forall>c. normalizeFormId type formId = [f] \<longrightarrow> get_field st g q = Some c \<longrightarrow>
                w = control_value (update_children (fg_removeControl (Some q)) g st) c))) \<and>
     (\<forall>s g gc cs.
        wf_state s \<longrightarrow> heap s g = Some gc \<longrightarrow> ac_kind gc = Group cs \<longrightarrow>
        (\<exists>s' leaf.
           FormControlTarget_body vo type (Some q) (Ref g) s = Inr s' \<and>
           get_field s' g q = Some (fresh s) \<and>
           heap s' (fresh s) = Some leaf \<and>
           ac_kind leaf =
             Control
               (case get_field s g q of
                  None \<Rightarrow>
                    (case map_of (type_instance type) q of None \<Rightarrow> JUndefined | Some v \<Rightarrow> v)
                | Some c \<Rightarrow>
                    control_value (update_children (fg_removeControl (Some q)) g s) c)))"
proof (intro conjI allI impI)
  let ?st1 = "initializeMetadata type formId st"
  let ?names = "normalizeFormId type formId"
  let ?body = "FormControlTarget_body vo type (Some q)"
  have wf1: "wf_state ?st1"
    using wf by (rule wf_state_initializeMetadata)
  obtain forms where forms: "METADATA ?st1 (type_key type) = Some forms"
    and groups: "getFormGroups ?st1 type formId = Inr (map (read_form forms) ?names)"
    by (rule getFormGroups_initialized)
  have unfold: "FormControlTarget vo formId type propName descriptor st =
                  forEach ?body (map (read_form forms) ?names) ?st1"
    by (simp add: FormControlTarget_def Let_def name groups)
  {
    assume own: "\<forall>f \<in> set ?names. f \<notin> set Object_prototype_names"
    have "\<forall>e \<in> set (map (read_form forms) ?names). \<exists>g. e = Ref g \<and> is_group ?st1 g"
    proof
      fix e
      assume "e \<in> set (map (read_form forms) ?names)"
      then obtain f where f: "f \<in> set ?names" and e: "e = read_form forms f"
        by auto
      have "truthy (read_form forms f)"
        using initializeMetadata_has_form [OF f, of st] forms by (simp add: has_form_def)
      then obtain a where a: "map_of forms f = Some a"
        using read_form_truthy_own own f by blast
      then have "registered ?st1 (type_key type) f a"
        using forms by (auto simp: registered_def)
      then have "is_group ?st1 a"
        by (rule wf_state_group [OF wf1])
      moreover have "e = Ref a"
        using e a by (simp add: read_form_def)
      ultimately show "\<exists>g. e = Ref g \<and> is_group ?st1 g"
        by blast
    qed
    then show "\<exists>st'. FormControlTarget vo formId type propName descriptor st = Inr st'"
      unfolding unfold using FormControlTarget_loop_returns [OF wf1] by blast
  }
  {
    fix st' f g
    assume run: "FormControlTarget vo formId type propName descriptor st = Inr st'"
      and f: "f \<in> set ?names"
      and tree: "form_address st' type f = Some g"
    have loop: "forEach ?body (map (read_form forms) ?names) ?st1 = Inr st'"
      using run by (simp add: unfold)
    have "touches_only (entry_addrs (map (read_form forms) ?names)) ?st1 st'"
      using touches_only_FormControlTarget_body wf1 loop by (rule forEach_touches_only)
    then have meta: "METADATA st' = METADATA ?st1"
      by (simp add: touches_only_def)
    have g: "map_of forms f = Some g"
      using tree forms by (simp add: form_address_def meta)
    then have reg1: "registered ?st1 (type_key type) f g"
      using forms by (auto simp: registered_def)
    then have grp1: "is_group ?st1 g"
      by (rule wf_state_group [OF wf1])
    have "read_form forms f = Ref g"
      using g by (simp add: read_form_Ref)
    then have mem: "Ref g \<in> set (map (read_form forms) ?names)"
      using f by (metis imageI set_map)
    note processed = FormControlTarget_loop_processes [OF wf1 loop grp1 mem]
    obtain w where w: "field_control (fresh ?st1) st' g q w"
      using processed by blast
    then obtain a leaf where a: "get_field st' g q = Some a" "fresh ?st1 \<le> a"
      "heap st' a = Some leaf" "ac_kind leaf = Control w"
      by (auto simp: field_control_def)
    have mono: "fresh st \<le> fresh ?st1"
      by (rule initializeMetadata_fresh)
    have expect: "w = w'" if "field_expects type ?st1 g q w'" for w'
      using processed [of w'] that w field_control_unique by blast
    have absent: "w = (case map_of (type_instance type) q of None \<Rightarrow> JUndefined | Some v \<Rightarrow> v)"
      if "get_field st g q = None"
    proof -
      have "get_field ?st1 g q = None"
        using wf that by (rule get_field_initializeMetadata)
      then have "field_expects type ?st1 g q (instance_value type q)"
        by (simp add: field_expects_def)
      then show ?thesis
        using expect by (simp add: instance_value_def)
    qed
    have present: "w = v"
      if c: "get_field st g q = Some c" "heap st c = Some cn" "ac_kind cn = Control v" for c cn v
    proof -
      have "heap st g \<noteq> None"
        using c(1) by (auto simp: get_field_def split: option.splits)
      then have "g < fresh st"
        by (rule wf_state_below [OF wf])
      then have 1: "heap ?st1 g = heap st g"
        by (rule initializeMetadata_heap_below)
      have "c < fresh st"
        using wf_state_below [OF wf, of c] c(2) by simp
      then have 2: "heap ?st1 c = heap st c"
        by (rule initializeMetadata_heap_below)
      have "field_control 0 ?st1 g q v"
        using c 1 2 by (auto simp: field_control_def get_field_def)
      then have "field_expects type ?st1 g q v"
        by (simp add: field_expects_def)
      then show ?thesis
        by (rule expect)
    qed
    have single: "w = control_value (update_children (fg_removeControl (Some q)) g st) c"
      if one: "?names = [f]" and c: "get_field st g q = Some c" for c
    proof -
      obtain gc cs where cell: "heap st g = Some gc" "ac_kind gc = Group cs"
        using c by (auto simp: get_field_def split: option.splits control_kind.splits)
      have below: "g < fresh st"
        using wf_state_below [OF wf, of g] cell by simp
      have "registered st (type_key type) f g"
        using registered_initializeMetadata_new [OF reg1] below by auto
      then have addr: "form_address st type f = Some g"
        by (simp add: form_address_registered)
      have init: "?st1 = st"
        using one addr by (rule initializeMetadata_single_present)
      have "FormControlTarget vo formId type propName descriptor st = ?body (Ref g) st"
        using FormControlTarget_single [OF one _ name, of st g vo] addr by (simp add: init)
      then have body: "?body (Ref g) st = Inr st'"
        using run by simp
      obtain leaf' where leaf': "get_field st' g q = Some (fresh st)"
        "heap st' (fresh st) = Some leaf'"
        "ac_kind leaf' =
           Control (case get_field st g q of
                      None \<Rightarrow> instance_value type q
                    | Some c \<Rightarrow>
                        control_value (update_children (fg_removeControl (Some q)) g st) c)"
        using FormControlTarget_body_group [OF cell, of vo type q] below body by auto
      then show ?thesis
        using a c by simp
    qed
    show "\<exists>a leaf w.
           get_field st' g q = Some a \<and> fresh st \<le> a \<and>
           heap st' a = Some leaf \<and> ac_kind leaf = Control w \<and>
           (get_field st g q = None \<longrightarrow>
              w = (case map_of (type_instance type) q of None \<Rightarrow> JUndefined | Some v \<Rightarrow> v)) \<and>
           (\<forall>c cn v. get_field st g q = Some c \<longrightarrow> heap st c = Some cn \<longrightarrow>
                      ac_kind cn = Control v \<longrightarrow> w = v) \<and>
           (\<forall>c. normalizeFormId type formId = [f] \<longrightarrow> get_field st g q = Some c \<longrightarrow>
                w = control_value (update_children (fg_removeControl (Some q)) g st) c)"
      using a mono absent present single
      by (intro exI [of _ a] exI [of _ leaf] exI [of _ w]) auto
  }
  {
    fix s g gc cs
    assume s: "wf_state s" and cell: "heap s g = Some gc" "ac_kind gc = Group cs"
    have below: "g \<noteq> fresh s"
      using wf_state_below [OF s, of g] cell by auto
    show "\<exists>s' leaf.
           FormControlTarget_body vo type (Some q) (Ref g) s = Inr s' \<and>
           get_field s' g q = Some (fresh s) \<and>
           heap s' (fresh s) = Some leaf \<and>
           ac_kind leaf =
             Control
               (case get_field s g q of
                  None \<Rightarrow>
                    (case map_of (type_instance type) q of None \<Rightarrow> JUndefined | Some v \<Rightarrow> v)
                | Some c \<Rightarrow>
                    control_value (update_children (fg_removeControl (Some q)) g s) c)"
      using FormControlTarget_body_group [OF cell below, of vo type q]
      unfolding instance_value_def by blast
  }
qed

theorem initial_value_of_field_control_witness:
  "wf_state empty_state \<and>
   wf_state login_async_state \<and>
   acting_propName InvoiceRequest ''num'' None = Some ''num'' \<and>
   acting_propName LoginRequest ''username'' None = Some ''username'' \<and>
   normalizeFormId InvoiceRequest (FormIds [DEFAULT_GROUP, ''editForm''])
     = [''InvoiceRequest'', ''editForm''] \<and>
   normalizeFormId LoginRequest (FormIds [DEFAULT_GROUP, ''secondary''])
     = [''LoginRequest'', ''secondary''] \<and>
   get_field empty_state 1 ''num'' = None \<and>
   map_of (type_instance InvoiceRequest) ''num'' = Some (JStr ''001'') \<and>
   (\<exists>st' a leaf.
      FormControlTarget (Rules (One 1)) (FormIds [DEFAULT_GROUP, ''editForm''])
        InvoiceRequest ''num'' None empty_state = Inr st' \<and>
      form_address st' InvoiceRequest ''editForm'' = Some 1 \<and>
      get_field st' 1 ''num'' = Some a \<and> heap st' a = Some leaf \<and>
      ac_kind leaf = Control (JStr ''001'')) \<and>
   get_field login_async_state 0 ''username'' = Some 1 \<and>
   heap login_async_state 0 =
     Some \<lparr>ac_kind = Group [(''username'', 1)], ac_validators = [], ac_asyncValidators = []\<rparr> \<and>
   heap login_async_state 1 =
     Some \<lparr>ac_kind = Control (JStr ''typed''), ac_validators = [], ac_asyncValidators = [7]\<rparr> \<and>
   map_of (type_instance LoginRequest) ''username'' = Some (JStr []) \<and>
   (\<exists>st' a leaf.
      FormControlTarget NoRules (FormIds [DEFAULT_GROUP, ''secondary''])
        LoginRequest ''username'' None login_async_state = Inr st' \<and>
      form_address st' LoginRequest ''LoginRequest'' = Some 0 \<and>
      get_field st' 0 ''username'' = Some a \<and> fresh login_async_state \<le> a \<and>
      heap st' a = Some leaf \<and> ac_kind leaf = Control (JStr ''typed'')) \<and>
   (\<exists>s' leaf.
      FormControlTarget_body NoRules LoginRequest (Some ''username'') (Ref 0) login_async_state
        = Inr s' \<and>
      get_field s' 0 ''username'' = Some (fresh login_async_state) \<and>
      heap s' (fresh login_async_state) = Some leaf \<and>
      ac_kind leaf = Control (JStr ''typed''))"
proof -
  let ?gc = "\<lparr>ac_kind = Group [(''username'', 1)], ac_validators = [], ac_asyncValidators = []\<rparr>"
  let ?c = "\<lparr>ac_kind = Control (JStr ''typed''), ac_validators = [], ac_asyncValidators = [7::nat]\<rparr>"
  have num: "acting_propName InvoiceRequest ''num'' None = Some ''num''"
    and user: "acting_propName LoginRequest ''username'' None = Some ''username''"
    by (simp_all add: acting_propName_def)
  have names1: "normalizeFormId InvoiceRequest (FormIds [DEFAULT_GROUP, ''editForm''])
                  = [''InvoiceRequest'', ''editForm'']"
    and names2: "normalizeFormId LoginRequest (FormIds [DEFAULT_GROUP, ''secondary''])
                  = [''LoginRequest'', ''secondary'']"
    by (simp_all add: normalizeFormId_def InvoiceRequest_def LoginRequest_def DEFAULT_GROUP_def)
  have own1: "\<forall>f \<in> set (normalizeFormId InvoiceRequest (FormIds [DEFAULT_GROUP, ''editForm''])).
                f \<notin> set Object_prototype_names"
    unfolding names1 by (simp add: Object_prototype_names_def)
  have none: "get_field empty_state 1 ''num'' = None"
    by (simp add: get_field_def empty_state_def)
  have dflt1: "map_of (type_instance InvoiceRequest) ''num'' = Some (JStr ''001'')"
    by (simp add: InvoiceRequest_def)
  have dflt2: "map_of (type_instance LoginRequest) ''username'' = Some (JStr [])"
    by (simp add: LoginRequest_def)
  note invoice = initial_value_of_field_control [OF wf_empty_state num,
      of "FormIds [DEFAULT_GROUP, ''editForm'']" "Rules (One 1)"]
  note login = initial_value_of_field_control [OF wf_login_async_state user,
      of "FormIds [DEFAULT_GROUP, ''secondary'']" NoRules]
  have returns: "\<exists>st'. FormControlTarget (Rules (One 1)) (FormIds [DEFAULT_GROUP, ''editForm''])
                        InvoiceRequest ''num'' None empty_state = Inr st'"
    using invoice [THEN conjunct1] own1 by (rule mp)
  obtain st1 where run1: "FormControlTarget (Rules (One 1)) (FormIds [DEFAULT_GROUP, ''editForm''])
                        InvoiceRequest ''num'' None empty_state = Inr st1"
    and tree1: "form_address st1 InvoiceRequest ''editForm'' = Some 1"
    using invoice_num_example by blast
  have mem1: "''editForm'' \<in> set (normalizeFormId InvoiceRequest
                                     (FormIds [DEFAULT_GROUP, ''editForm'']))"
    by (simp add: names1)
  obtain a1 leaf1 w1 where v1: "get_field st1 1 ''num'' = Some a1" "heap st1 a1 = Some leaf1"
    "ac_kind leaf1 = Control w1"
    "get_field empty_state 1 ''num'' = None \<longrightarrow>
       w1 = (case map_of (type_instance InvoiceRequest) ''num'' of
               None \<Rightarrow> JUndefined | Some v \<Rightarrow> v)"
    using invoice [THEN conjunct2, THEN conjunct1, rule_format, OF run1 mem1 tree1]
    by (elim exE conjE) (rule that)
  have w1: "w1 = JStr ''001''"
    using v1(4) none by (simp add: dflt1)
  have cell0: "heap login_async_state 0 = Some ?gc" and cell1: "heap login_async_state 1 = Some ?c"
    by (simp_all add: login_async_state_def)
  have field: "get_field login_async_state 0 ''username'' = Some 1"
    by (simp add: get_field_def cell0)
  obtain st2 where run2: "FormControlTarget NoRules (FormIds [DEFAULT_GROUP, ''secondary''])
                        LoginRequest ''username'' None login_async_state = Inr st2"
    and tree2: "form_address st2 LoginRequest ''LoginRequest'' = Some 0"
    using login_username_example by blast
  have mem2: "''LoginRequest'' \<in> set (normalizeFormId LoginRequest
                                         (FormIds [DEFAULT_GROUP, ''secondary'']))"
    by (simp add: names2)
  obtain a2 leaf2 w2 where v2: "get_field st2 0 ''username'' = Some a2"
    "fresh login_async_state \<le> a2" "heap st2 a2 = Some leaf2" "ac_kind leaf2 = Control w2"
    "\<forall>c cn v. get_field login_async_state 0 ''username'' = Some c \<longrightarrow>
        heap login_async_state c = Some cn \<longrightarrow> ac_kind cn = Control v \<longrightarrow> w2 = v"
    using login [THEN conjunct2, THEN conjunct1, rule_format, OF run2 mem2 tree2]
    by (elim exE conjE) (rule that)
  have w2: "w2 = JStr ''typed''"
    using v2(5) field cell1 by simp
  obtain s' leaf3 where v3: "FormControlTarget_body NoRules LoginRequest (Some ''username'') (Ref 0)
                               login_async_state = Inr s'"
    "get_field s' 0 ''username'' = Some (fresh login_async_state)"
    "heap s' (fresh login_async_state) = Some leaf3"
    "ac_kind leaf3 =
       Control
         (case get_field login_async_state 0 ''username'' of
            None \<Rightarrow>
              (case map_of (type_instance LoginRequest) ''username'' of
                 None \<Rightarrow> JUndefined | Some v \<Rightarrow> v)
          | Some c \<Rightarrow>
              control_value
                (update_children (fg_removeControl (Some ''username'')) 0 login_async_state) c)"
    using login [THEN conjunct2, THEN conjunct2, rule_format, OF wf_login_async_state cell0,
        of "[(''username'', 1)]", simplified]
    by (elim exE conjE) (rule that)
  have "control_value
          (update_children (fg_removeControl (Some ''username'')) 0 login_async_state) 1
        = JStr ''typed''"
    by (rule control_value_after_removal [OF cell0 _ cell1]) simp_all
  then have w3: "ac_kind leaf3 = Control (JStr ''typed'')"
    using v3(4) by (simp add: field)
  show ?thesis
    using wf_empty_state wf_login_async_state num user names1 names2 none dflt1 dflt2
      run1 tree1 v1(1,2,3) w1 field cell0 cell1 run2 tree2 v2(1-4) w2 v3(1-3) w3
    by blast
qed

end
